theory Spec2Isabelle
  imports Complex_Main
begin

section \<open>JavaScript numbers\<close>

text \<open>
  Every quantity of the simulator is a JavaScript number. A number is modelled as an exact
  real, or one of the three special values that JavaScript arithmetic produces instead of
  raising: division by zero gives an infinity or NaN, and NaN spreads through every later
  operation. The rounding of finite results to 64-bit doubles, the overflow of a finite
  result to an infinity and the sign of zero (every zero is taken as +0) are not modelled.
\<close>

datatype jsnum = Fin real | PosInf | NegInf | NaN

fun js_neg :: "jsnum \<Rightarrow> jsnum" where
  "js_neg (Fin a) = Fin (- a)"
| "js_neg PosInf = NegInf"
| "js_neg NegInf = PosInf"
| "js_neg NaN = NaN"

text \<open>\<open>a + b\<close>: opposite infinities give NaN.\<close>

fun js_add :: "jsnum \<Rightarrow> jsnum \<Rightarrow> jsnum" where
  "js_add (Fin a) (Fin b) = Fin (a + b)"
| "js_add (Fin a) PosInf = PosInf"
| "js_add (Fin a) NegInf = NegInf"
| "js_add PosInf (Fin b) = PosInf"
| "js_add PosInf PosInf = PosInf"
| "js_add PosInf NegInf = NaN"
| "js_add NegInf (Fin b) = NegInf"
| "js_add NegInf PosInf = NaN"
| "js_add NegInf NegInf = NegInf"
| "js_add NaN b = NaN"
| "js_add a NaN = NaN"

definition js_sub :: "jsnum \<Rightarrow> jsnum \<Rightarrow> jsnum" where
  "js_sub a b = js_add a (js_neg b)"

text \<open>An infinity with the sign of a nonzero real; NaN for zero (\<open>0 * Infinity\<close>).\<close>

definition signed_inf :: "real \<Rightarrow> jsnum" where
  "signed_inf a = (if a = 0 then NaN else if 0 < a then PosInf else NegInf)"

fun js_mul :: "jsnum \<Rightarrow> jsnum \<Rightarrow> jsnum" where
  "js_mul (Fin a) (Fin b) = Fin (a * b)"
| "js_mul (Fin a) PosInf = signed_inf a"
| "js_mul (Fin a) NegInf = signed_inf (- a)"
| "js_mul PosInf (Fin b) = signed_inf b"
| "js_mul PosInf PosInf = PosInf"
| "js_mul PosInf NegInf = NegInf"
| "js_mul NegInf (Fin b) = signed_inf (- b)"
| "js_mul NegInf PosInf = NegInf"
| "js_mul NegInf NegInf = PosInf"
| "js_mul NaN b = NaN"
| "js_mul a NaN = NaN"

text \<open>
  \<open>a / b\<close>: a finite nonzero number over zero is an infinity of its sign, \<open>0 / 0\<close> and
  an infinity over an infinity are NaN, a finite number over an infinity is zero.
\<close>

fun js_div :: "jsnum \<Rightarrow> jsnum \<Rightarrow> jsnum" where
  "js_div (Fin a) (Fin b) = (if b = 0 then signed_inf a else Fin (a / b))"
| "js_div (Fin a) PosInf = Fin 0"
| "js_div (Fin a) NegInf = Fin 0"
| "js_div PosInf (Fin b) = (if 0 \<le> b then PosInf else NegInf)"
| "js_div NegInf (Fin b) = (if 0 \<le> b then NegInf else PosInf)"
| "js_div PosInf PosInf = NaN"
| "js_div PosInf NegInf = NaN"
| "js_div NegInf PosInf = NaN"
| "js_div NegInf NegInf = NaN"
| "js_div NaN b = NaN"
| "js_div a NaN = NaN"

text \<open>\<open>a < b\<close>: every comparison with NaN is false.\<close>

fun js_lt :: "jsnum \<Rightarrow> jsnum \<Rightarrow> bool" where
  "js_lt (Fin a) (Fin b) = (a < b)"
| "js_lt (Fin a) PosInf = True"
| "js_lt (Fin a) NegInf = False"
| "js_lt PosInf b = False"
| "js_lt NegInf (Fin b) = True"
| "js_lt NegInf PosInf = True"
| "js_lt NegInf NegInf = False"
| "js_lt NegInf NaN = False"
| "js_lt NaN b = False"
| "js_lt (Fin a) NaN = False"

definition js_gt :: "jsnum \<Rightarrow> jsnum \<Rightarrow> bool" where
  "js_gt a b = js_lt b a"

text \<open>\<open>a >= b\<close>.\<close>

definition js_ge :: "jsnum \<Rightarrow> jsnum \<Rightarrow> bool" where
  "js_ge a b = (a \<noteq> NaN \<and> b \<noteq> NaN \<and> \<not> js_lt a b)"

definition js_le :: "jsnum \<Rightarrow> jsnum \<Rightarrow> bool" where
  "js_le a b = js_ge b a"

text \<open>\<open>Math.max(a, b)\<close> and \<open>Math.min(a, b)\<close>: NaN if either argument is NaN.\<close>

definition Math_max :: "jsnum \<Rightarrow> jsnum \<Rightarrow> jsnum" where
  "Math_max a b = (if a = NaN \<or> b = NaN then NaN else if js_lt a b then b else a)"

definition Math_min :: "jsnum \<Rightarrow> jsnum \<Rightarrow> jsnum" where
  "Math_min a b = (if a = NaN \<or> b = NaN then NaN else if js_lt b a then b else a)"

text \<open>\<open>Math.round(a)\<close>: the nearest integer, halves rounded up.\<close>

fun Math_round :: "jsnum \<Rightarrow> jsnum" where
  "Math_round (Fin a) = Fin (of_int \<lfloor>a + 1 / 2\<rfloor>)"
| "Math_round PosInf = PosInf"
| "Math_round NegInf = NegInf"
| "Math_round NaN = NaN"

fun Math_sin :: "jsnum \<Rightarrow> jsnum" where
  "Math_sin (Fin a) = Fin (sin a)"
| "Math_sin PosInf = NaN"
| "Math_sin NegInf = NaN"
| "Math_sin NaN = NaN"

fun Math_sqrt :: "jsnum \<Rightarrow> jsnum" where
  "Math_sqrt (Fin a) = (if a < 0 then NaN else Fin (sqrt a))"
| "Math_sqrt PosInf = PosInf"
| "Math_sqrt NegInf = NaN"
| "Math_sqrt NaN = NaN"

text \<open>\<open>Math.pow(a, 2)\<close>, the only power the simulator takes.\<close>

definition Math_pow2 :: "jsnum \<Rightarrow> jsnum" where
  "Math_pow2 a = js_mul a a"

definition Math_PI :: jsnum where
  "Math_PI = Fin pi"

text \<open>\<open>Math.max(...xs)\<close> and \<open>Math.min(...xs)\<close> over a spread array.\<close>

definition Math_max_list :: "jsnum list \<Rightarrow> jsnum" where
  "Math_max_list xs = foldl Math_max NegInf xs"

definition Math_min_list :: "jsnum list \<Rightarrow> jsnum" where
  "Math_min_list xs = foldl Math_min PosInf xs"

definition is_finite :: "jsnum \<Rightarrow> bool" where
  "is_finite a = (case a of Fin _ \<Rightarrow> True | _ \<Rightarrow> False)"

section \<open>Parameters and simulator state\<close>

record PreyParameters =
  prey_initialPopulation :: jsnum
  birthRate :: jsnum
  carryingCapacity :: jsnum

record PredatorParameters =
  predator_initialPopulation :: jsnum
  huntingEfficiency :: jsnum
  deathRate :: jsnum

record EnvironmentParameters =
  resourceAvailability :: jsnum
  seasonalVariation :: bool
  seasonalAmplitude :: jsnum

record SimulationParameters =
  prey :: PreyParameters
  predator :: PredatorParameters
  environment :: EnvironmentParameters

record TimeStep =
  time :: jsnum
  preyPopulation :: jsnum
  predatorPopulation :: jsnum
  resourceLevel :: jsnum

record EquilibriumPoint =
  eq_prey :: jsnum
  eq_predator :: jsnum
  timeToReach :: jsnum

text \<open>
  The fields of the simulator object. \<open>currentTime\<close> and \<open>maxTime\<close> never hold a value
  computed from the parameters: they start at 0 and 100 and change only by adding \<open>dt\<close>
  and by the horizon update, so they are finite and typed \<open>real\<close>. The fields \<open>dt\<close>,
  \<open>equilibriumBufferSize\<close> and \<open>equilibriumTolerance\<close> are assigned in the constructor
  only and are constants here.

  The clock advances by the exact \<open>1 / 100\<close>. The clock of the code accumulates the double
  nearest to 0.01, and ten such additions give 0.09999999999999999: the code stores its
  records at the times 0.11, 0.21, ... where exact arithmetic gives 0.1, 0.2, ..., and the
  number of passes through the loop differs accordingly. No theorem of this theory rests
  on the value the clock has after a given number of passes: what is proved of a run is
  proved of the passes from any loop head, whatever the time at that head.
\<close>

record EcosystemSimulator =
  params :: SimulationParameters
  history :: "TimeStep list"
  currentTime :: real
  maxTime :: real
  preyPop :: jsnum
  predatorPop :: jsnum
  equilibriumReached :: bool
  equilibriumPoint :: "EquilibriumPoint option"
  extinctionOccurred :: bool

definition dt :: real where
  "dt = 1 / 100"

definition equilibriumBufferSize :: nat where
  "equilibriumBufferSize = 50"

definition equilibriumTolerance :: jsnum where
  "equilibriumTolerance = Fin (1 / 100)"

definition constructor :: "SimulationParameters \<Rightarrow> EcosystemSimulator" where
  "constructor parameters =
     \<lparr> params = parameters,
       history = [],
       currentTime = 0,
       maxTime = 100,
       preyPop = prey_initialPopulation (prey parameters),
       predatorPop = predator_initialPopulation (predator parameters),
       equilibriumReached = False,
       equilibriumPoint = None,
       extinctionOccurred = False \<rparr>"

section \<open>Resource level and derivatives\<close>

definition calculateResourceLevel :: "EcosystemSimulator \<Rightarrow> jsnum \<Rightarrow> jsnum" where
  "calculateResourceLevel this t =
     (let base = resourceAvailability (environment (params this))
      in if \<not> seasonalVariation (environment (params this)) then base
         else
           let amplitude = seasonalAmplitude (environment (params this));
               seasonalFactor =
                 Math_sin (js_div (js_mul (js_mul (Fin 2) Math_PI) t) (Fin 12))
           in Math_max (Fin 0) (Math_min (Fin 1) (js_add base (js_mul amplitude seasonalFactor))))"

record Derivatives =
  dPreyDt :: jsnum
  dPredatorDt :: jsnum

definition calculateDerivatives ::
  "EcosystemSimulator \<Rightarrow> jsnum \<Rightarrow> jsnum \<Rightarrow> jsnum \<Rightarrow> Derivatives" where
  "calculateDerivatives this prey0 predator0 resourceLevel0 =
     (let p = params this;
          effectiveBirthRate = js_mul (birthRate (prey p)) resourceLevel0;
          preyGrowth = js_mul effectiveBirthRate prey0;
          predation = js_mul (js_mul (huntingEfficiency (predator p)) prey0) predator0;
          preyCompetition =
            js_div (js_mul (js_mul (birthRate (prey p)) prey0) prey0)
              (carryingCapacity (prey p));
          dPrey = js_sub (js_sub preyGrowth predation) preyCompetition;
          predatorGrowth =
            js_mul (js_mul (js_mul (huntingEfficiency (predator p)) (Fin (1 / 2))) prey0)
              predator0;
          predatorDeath = js_mul (deathRate (predator p)) predator0;
          starvationFactor = (if js_lt prey0 (Fin 10) then Fin 2 else Fin 1);
          dPredator = js_sub predatorGrowth (js_mul predatorDeath starvationFactor)
      in \<lparr> dPreyDt = dPrey, dPredatorDt = dPredator \<rparr>)"

section \<open>Runge-Kutta step\<close>

record Populations =
  pop_prey :: jsnum
  pop_predator :: jsnum

definition rungeKutta4Step ::
  "EcosystemSimulator \<Rightarrow> jsnum \<Rightarrow> jsnum \<Rightarrow> jsnum \<Rightarrow> Populations" where
  "rungeKutta4Step this prey0 predator0 t =
     (let resourceLevel0 = calculateResourceLevel this t;
          k1 = calculateDerivatives this prey0 predator0 resourceLevel0;
          k2Prey = js_add prey0 (js_mul (js_mul (Fin (1 / 2)) (Fin dt)) (dPreyDt k1));
          k2Predator = js_add predator0 (js_mul (js_mul (Fin (1 / 2)) (Fin dt)) (dPredatorDt k1));
          k2 = calculateDerivatives this k2Prey k2Predator resourceLevel0;
          k3Prey = js_add prey0 (js_mul (js_mul (Fin (1 / 2)) (Fin dt)) (dPreyDt k2));
          k3Predator = js_add predator0 (js_mul (js_mul (Fin (1 / 2)) (Fin dt)) (dPredatorDt k2));
          k3 = calculateDerivatives this k3Prey k3Predator resourceLevel0;
          k4Prey = js_add prey0 (js_mul (Fin dt) (dPreyDt k3));
          k4Predator = js_add predator0 (js_mul (Fin dt) (dPredatorDt k3));
          k4 = calculateDerivatives this k4Prey k4Predator resourceLevel0;
          newPrey =
            Math_max (Fin 0)
              (js_add prey0
                 (js_mul (js_div (Fin dt) (Fin 6))
                    (js_add
                       (js_add
                          (js_add (dPreyDt k1) (js_mul (Fin 2) (dPreyDt k2)))
                          (js_mul (Fin 2) (dPreyDt k3)))
                       (dPreyDt k4))));
          newPredator =
            Math_max (Fin 0)
              (js_add predator0
                 (js_mul (js_div (Fin dt) (Fin 6))
                    (js_add
                       (js_add
                          (js_add (dPredatorDt k1) (js_mul (Fin 2) (dPredatorDt k2)))
                          (js_mul (Fin 2) (dPredatorDt k3)))
                       (dPredatorDt k4))))
      in \<lparr> pop_prey = newPrey, pop_predator = newPredator \<rparr>)"

section \<open>Equilibrium and extinction checks\<close>

text \<open>
  The two checks change the simulator and return a flag: each returns the flag with the
  simulator as it leaves the method. \<open>history.slice(-50)\<close> is the last 50 records.
\<close>

definition window_mean :: "(TimeStep \<Rightarrow> jsnum) \<Rightarrow> TimeStep list \<Rightarrow> jsnum" where
  "window_mean f recent =
     js_div (foldl (\<lambda>sum h. js_add sum (f h)) (Fin 0) recent) (Fin (real (length recent)))"

definition window_variance :: "(TimeStep \<Rightarrow> jsnum) \<Rightarrow> jsnum \<Rightarrow> TimeStep list \<Rightarrow> jsnum" where
  "window_variance f avg recent =
     js_div (foldl (\<lambda>sum h. js_add sum (Math_pow2 (js_sub (f h) avg))) (Fin 0) recent)
       (Fin (real (length recent)))"

definition checkEquilibrium :: "EcosystemSimulator \<Rightarrow> bool \<times> EcosystemSimulator" where
  "checkEquilibrium this =
     (if length (history this) < equilibriumBufferSize then (False, this)
      else
        let recent = drop (length (history this) - equilibriumBufferSize) (history this);
            avgPrey = window_mean preyPopulation recent;
            avgPredator = window_mean predatorPopulation recent;
            preyVariance = window_variance preyPopulation avgPrey recent;
            predatorVariance = window_variance predatorPopulation avgPredator recent;
            preyStable = js_lt (js_div (Math_sqrt preyVariance) avgPrey) equilibriumTolerance;
            predatorStable =
              js_lt (js_div (Math_sqrt predatorVariance) avgPredator) equilibriumTolerance
        in if preyStable \<and> predatorStable
           then (True,
                 this\<lparr> equilibriumReached := True,
                       equilibriumPoint :=
                         Some \<lparr> eq_prey = avgPrey, eq_predator = avgPredator,
                                timeToReach = Fin (currentTime this) \<rparr> \<rparr>)
           else (False, this))"

definition checkExtinction :: "EcosystemSimulator \<Rightarrow> bool \<times> EcosystemSimulator" where
  "checkExtinction this =
     (if js_lt (preyPop this) (Fin 1) \<or> js_lt (predatorPop this) (Fin 1)
      then (True, this\<lparr> extinctionOccurred := True \<rparr>)
      else (False, this))"

section \<open>The simulation loop\<close>

definition recordInterval :: real where
  "recordInterval = 1 / 10"

text \<open>The record that \<open>simulate\<close> pushes, in the loop and after it.\<close>

definition makeRecord :: "EcosystemSimulator \<Rightarrow> TimeStep" where
  "makeRecord this =
     \<lparr> time = js_div (Math_round (js_mul (Fin (currentTime this)) (Fin 100))) (Fin 100),
       preyPopulation = js_div (Math_round (js_mul (preyPop this) (Fin 10))) (Fin 10),
       predatorPopulation = js_div (Math_round (js_mul (predatorPop this) (Fin 10))) (Fin 10),
       resourceLevel = calculateResourceLevel this (Fin (currentTime this)) \<rparr>"

text \<open>
  One pass through the body of the \<open>while\<close> loop, entered with the local \<open>lastRecord\<close>:
  it ends in \<open>break\<close>, or at the end of the body with the new \<open>lastRecord\<close>.
\<close>

datatype loop_outcome = Break EcosystemSimulator | Continue real EcosystemSimulator

definition storeHistory :: "real \<Rightarrow> EcosystemSimulator \<Rightarrow> real \<times> EcosystemSimulator" where
  "storeHistory lastRecord this =
     (if currentTime this - lastRecord \<ge> recordInterval
      then (currentTime this, this\<lparr> history := history this @ [makeRecord this] \<rparr>)
      else (lastRecord, this))"

definition integrationStep :: "EcosystemSimulator \<Rightarrow> EcosystemSimulator" where
  "integrationStep this =
     (let newPops =
            rungeKutta4Step this (preyPop this) (predatorPop this) (Fin (currentTime this))
      in this\<lparr> preyPop := pop_prey newPops, predatorPop := pop_predator newPops \<rparr>)"

definition equilibriumStep :: "EcosystemSimulator \<Rightarrow> EcosystemSimulator" where
  "equilibriumStep this =
     (if \<not> equilibriumReached this
      then (case checkEquilibrium this of
              (True, this') \<Rightarrow>
                let extraTime = min 10 (maxTime this' - currentTime this')
                in this'\<lparr> maxTime := currentTime this' + extraTime \<rparr>
            | (False, this') \<Rightarrow> this')
      else this)"

definition loopBody :: "real \<Rightarrow> EcosystemSimulator \<Rightarrow> loop_outcome" where
  "loopBody lastRecord this =
     (case storeHistory lastRecord this of
        (lastRecord', this1) \<Rightarrow>
          (case checkExtinction (integrationStep this1) of
             (True, this2) \<Rightarrow> Break this2
           | (False, this2) \<Rightarrow>
               let this3 = equilibriumStep this2
               in Continue lastRecord' (this3\<lparr> currentTime := currentTime this3 + dt \<rparr>)))"

function simulateLoop :: "real \<Rightarrow> EcosystemSimulator \<Rightarrow> EcosystemSimulator" where
  "simulateLoop lastRecord this =
     (if currentTime this < maxTime this
      then (case loopBody lastRecord this of
              Break this' \<Rightarrow> this'
            | Continue lastRecord' this' \<Rightarrow> simulateLoop lastRecord' this')
      else this)"
  by pat_completeness auto

section \<open>Results\<close>

record SimulationSummary =
  duration :: real
  maxPrey :: jsnum
  maxPredator :: jsnum
  minPrey :: jsnum
  minPredator :: jsnum
  finalPrey :: jsnum
  finalPredator :: jsnum
  averageResourceLevel :: jsnum

record SimulationResults =
  timeSteps :: "TimeStep list"
  result_equilibriumReached :: bool
  result_equilibriumPoint :: "EquilibriumPoint option"
  result_extinctionOccurred :: bool
  summary :: SimulationSummary

definition getResults :: "EcosystemSimulator \<Rightarrow> SimulationResults" where
  "getResults this =
     \<lparr> timeSteps = history this,
       result_equilibriumReached = equilibriumReached this,
       result_equilibriumPoint = equilibriumPoint this,
       result_extinctionOccurred = extinctionOccurred this,
       summary =
         \<lparr> duration = currentTime this,
           maxPrey = Math_max_list (map preyPopulation (history this)),
           maxPredator = Math_max_list (map predatorPopulation (history this)),
           minPrey = Math_min_list (map preyPopulation (history this)),
           minPredator = Math_min_list (map predatorPopulation (history this)),
           finalPrey = preyPop this,
           finalPredator = predatorPop this,
           averageResourceLevel =
             js_div (foldl (\<lambda>sum h. js_add sum (resourceLevel h)) (Fin 0) (history this))
               (Fin (real (length (history this)))) \<rparr> \<rparr>"

text \<open>The state in which \<open>simulate\<close> calls \<open>getResults\<close>: the loop, then the final record.\<close>

definition addFinalState :: "EcosystemSimulator \<Rightarrow> EcosystemSimulator" where
  "addFinalState this = this\<lparr> history := history this @ [makeRecord this] \<rparr>"

definition simulate_state :: "EcosystemSimulator \<Rightarrow> EcosystemSimulator" where
  "simulate_state this = addFinalState (simulateLoop 0 this)"

definition simulate :: "EcosystemSimulator \<Rightarrow> SimulationResults" where
  "simulate this = getResults (simulate_state this)"

section \<open>Static analysis\<close>

record Prediction =
  pred_prey :: jsnum
  pred_predator :: jsnum
  isStable :: bool

definition predictEquilibrium :: "SimulationParameters \<Rightarrow> Prediction" where
  "predictEquilibrium p =
     (let preyEquilibrium =
            js_div (deathRate (predator p))
              (js_mul (huntingEfficiency (predator p)) (Fin (1 / 2)));
          predatorEquilibrium =
            js_div (js_mul (birthRate (prey p)) (resourceAvailability (environment p)))
              (huntingEfficiency (predator p));
          adjustedPreyEq =
            Math_min preyEquilibrium (js_mul (carryingCapacity (prey p)) (Fin (8 / 10)))
      in \<lparr> pred_prey = adjustedPreyEq,
           pred_predator = predatorEquilibrium,
           isStable = (js_gt adjustedPreyEq (Fin 0) \<and> js_gt predatorEquilibrium (Fin 0)) \<rparr>)"

record PhasePoint =
  pt_x :: jsnum
  pt_y :: jsnum
  pt_dx :: jsnum
  pt_dy :: jsnum

text \<open>
  The body of the inner loop at the counters \<open>i\<close> and \<open>j\<close>, and the two counted loops;
  \<open>points\<close> is the integer resolution.
\<close>

definition phasePoint :: "SimulationParameters \<Rightarrow> nat \<Rightarrow> nat \<Rightarrow> nat \<Rightarrow> PhasePoint" where
  "phasePoint parameters points i j =
     (let preyRange = carryingCapacity (prey parameters);
          predatorRange = js_mul (predator_initialPopulation (predator parameters)) (Fin 10);
          prey0 = js_mul (js_div (Fin (real i)) (Fin (real points))) preyRange;
          predator0 = js_mul (js_div (Fin (real j)) (Fin (real points))) predatorRange;
          sim = constructor
                  (parameters\<lparr> prey := (prey parameters)\<lparr> prey_initialPopulation := prey0 \<rparr>,
                               predator :=
                                 (predator parameters)\<lparr> predator_initialPopulation := predator0 \<rparr> \<rparr>);
          derivatives =
            calculateDerivatives sim prey0 predator0
              (resourceAvailability (environment parameters))
      in \<lparr> pt_x = prey0, pt_y = predator0,
           pt_dx = dPreyDt derivatives, pt_dy = dPredatorDt derivatives \<rparr>)"

definition calculatePhaseSpace :: "SimulationParameters \<Rightarrow> nat \<Rightarrow> PhasePoint list" where
  "calculatePhaseSpace parameters points =
     concat (map (\<lambda>i. map (\<lambda>j. phasePoint parameters points i j) [0..<points]) [0..<points])"

section \<open>Loop heads of a run\<close>

text \<open>
  \<open>extinct\<close> is the test of \<open>checkExtinction\<close>. \<open>loopReach init c\<close>: the loop, entered
  with the local \<open>lastRecord\<close> and the simulator of \<open>init\<close>, stands at the head of the
  \<open>while\<close> with those of \<open>c\<close> after some number of complete passes through its body.
\<close>

definition extinct :: "EcosystemSimulator \<Rightarrow> bool" where
  "extinct this = (js_lt (preyPop this) (Fin 1) \<or> js_lt (predatorPop this) (Fin 1))"

inductive loopReach :: "real \<times> EcosystemSimulator \<Rightarrow> real \<times> EcosystemSimulator \<Rightarrow> bool"
  for init :: "real \<times> EcosystemSimulator" where
  start: "loopReach init init"
| iterate: "loopReach init (lastRecord, this) \<Longrightarrow> currentTime this < maxTime this \<Longrightarrow>
     loopBody lastRecord this = Continue lastRecord' this' \<Longrightarrow>
     loopReach init (lastRecord', this')"

section \<open>Parameter sets\<close>

text \<open>
  The data model asks of a parameter set that every numeric field is at least 0.
\<close>

definition nonNegativeParameters :: "SimulationParameters \<Rightarrow> bool" where
  "nonNegativeParameters p =
     (js_ge (prey_initialPopulation (prey p)) (Fin 0) \<and>
      js_ge (birthRate (prey p)) (Fin 0) \<and>
      js_ge (carryingCapacity (prey p)) (Fin 0) \<and>
      js_ge (predator_initialPopulation (predator p)) (Fin 0) \<and>
      js_ge (huntingEfficiency (predator p)) (Fin 0) \<and>
      js_ge (deathRate (predator p)) (Fin 0) \<and>
      js_ge (resourceAvailability (environment p)) (Fin 0) \<and>
      js_ge (seasonalAmplitude (environment p)) (Fin 0))"

text \<open>The preset "Balanced Ecosystem" of the simulation route, and variations of it.\<close>

definition balancedEcosystem :: SimulationParameters where
  "balancedEcosystem =
     \<lparr> prey = \<lparr> prey_initialPopulation = Fin 1000, birthRate = Fin 1,
                carryingCapacity = Fin 5000 \<rparr>,
       predator = \<lparr> predator_initialPopulation = Fin 100, huntingEfficiency = Fin (1 / 100),
                    deathRate = Fin (1 / 2) \<rparr>,
       environment = \<lparr> resourceAvailability = Fin (7 / 10), seasonalVariation = False,
                       seasonalAmplitude = Fin (2 / 10) \<rparr> \<rparr>"

definition zeroHuntingEfficiency :: SimulationParameters where
  "zeroHuntingEfficiency =
     balancedEcosystem\<lparr> predator := (predator balancedEcosystem)\<lparr> huntingEfficiency := Fin 0 \<rparr> \<rparr>"

definition abundantResources :: SimulationParameters where
  "abundantResources =
     balancedEcosystem\<lparr> environment :=
       (environment balancedEcosystem)\<lparr> resourceAvailability := Fin 5 \<rparr> \<rparr>"

definition seasonalEcosystem :: SimulationParameters where
  "seasonalEcosystem =
     balancedEcosystem\<lparr> environment :=
       (environment balancedEcosystem)\<lparr> seasonalVariation := True \<rparr> \<rparr>"

definition preyAbsent :: SimulationParameters where
  "preyAbsent =
     balancedEcosystem\<lparr> prey := (prey balancedEcosystem)\<lparr> prey_initialPopulation := Fin 0 \<rparr> \<rparr>"

definition zeroCarryingCapacity :: SimulationParameters where
  "zeroCarryingCapacity =
     balancedEcosystem\<lparr> prey := (prey balancedEcosystem)\<lparr> carryingCapacity := Fin 0 \<rparr> \<rparr>"

text \<open>
  The window of \<open>checkEquilibrium\<close>, the last 50 records of the history, and the point it
  assigns: the means of prey and predator over the window, with a time.
\<close>

definition recentWindow :: "EcosystemSimulator \<Rightarrow> TimeStep list" where
  "recentWindow this = drop (length (history this) - equilibriumBufferSize) (history this)"

definition windowMeans :: "EcosystemSimulator \<Rightarrow> real \<Rightarrow> EquilibriumPoint" where
  "windowMeans this t =
     \<lparr> eq_prey = window_mean preyPopulation (recentWindow this),
       eq_predator = window_mean predatorPopulation (recentWindow this),
       timeToReach = Fin t \<rparr>"

text \<open>
  The mean of a window of samples, as arithmetic states it: the sum of the samples over
  their number. It is independent of the reduction by which \<open>checkEquilibrium\<close> computes
  its averages.
\<close>

definition arithmeticMean :: "real list \<Rightarrow> real" where
  "arithmeticMean xs = sum_list xs / real (length xs)"

text \<open>
  What \<open>simulate\<close> returns when its loop stands at a head with the local \<open>lastRecord\<close>:
  the rest of the loop, the final record, the results. \<open>simulate\<close> itself enters the
  loop with \<open>lastRecord = 0\<close>.
\<close>

definition resultsFrom :: "real \<Rightarrow> EcosystemSimulator \<Rightarrow> SimulationResults" where
  "resultsFrom lastRecord this = getResults (addFinalState (simulateLoop lastRecord this))"

text \<open>
  A parameter set whose rates are all 0: the populations stay at 100. In the code, whose
  clock accumulates the double 0.01, the run of this parameter set stores its records
  in the passes 11, 21, ..., 191, 202, 213, ..., 521 and stands after 532 passes at the
  head \<open>stillLatchHead\<close>, with 49 records, the clock \<open>stillClock\<close> (the double
  5.319999999999931) and the local \<open>lastRecord = stillLastRecord\<close> (the double
  5.209999999999933). The pass from this head stores the 50th record and detects the
  equilibrium.
\<close>

definition stillEcosystem :: SimulationParameters where
  "stillEcosystem =
     \<lparr> prey = \<lparr> prey_initialPopulation = Fin 100, birthRate = Fin 0,
                carryingCapacity = Fin 5000 \<rparr>,
       predator = \<lparr> predator_initialPopulation = Fin 100, huntingEfficiency = Fin 0,
                    deathRate = Fin 0 \<rparr>,
       environment = \<lparr> resourceAvailability = Fin (7 / 10), seasonalVariation = False,
                       seasonalAmplitude = Fin (2 / 10) \<rparr> \<rparr>"

definition stillRecord :: "nat \<Rightarrow> TimeStep" where
  "stillRecord k =
     \<lparr> time = Fin (real k / 100), preyPopulation = Fin 100, predatorPopulation = Fin 100,
       resourceLevel = Fin (7 / 10) \<rparr>"

definition stillClock :: real where
  "stillClock = 2994893752201341 / 562949953421312"

definition stillLastRecord :: real where
  "stillLastRecord = 1466484628662499 / 281474976710656"

definition stillHistory :: "TimeStep list" where
  "stillHistory =
     map (\<lambda>i. stillRecord (10 * i + 1)) [1..<20] @ map (\<lambda>i. stillRecord (11 * i - 18)) [20..<50]"

definition stillLatchHead :: EcosystemSimulator where
  "stillLatchHead =
     (constructor stillEcosystem)\<lparr> history := stillHistory, currentTime := stillClock \<rparr>"

text \<open>The simulator after that pass.\<close>

definition stillLatched :: EcosystemSimulator where
  "stillLatched =
     stillLatchHead
       \<lparr> history := stillHistory @ [stillRecord 532],
         currentTime := stillClock + dt,
         maxTime := stillClock + 10,
         equilibriumReached := True,
         equilibriumPoint :=
           Some \<lparr> eq_prey = Fin 100, eq_predator = Fin 100, timeToReach = Fin stillClock \<rparr> \<rparr>"

text \<open>
  Predicates on populations: NaN or at least 0 (what \<open>Math.max(0, x)\<close> returns), finite
  and at least 0, both NaN; \<open>recordsSatisfy\<close> and \<open>runInvariant\<close> carry such a predicate
  over the records and the populations of a simulator with given parameters.
\<close>

definition nonNegativeOrNaN :: "jsnum \<Rightarrow> bool" where
  "nonNegativeOrNaN a = (a = NaN \<or> js_ge a (Fin 0))"

definition finiteParameters :: "SimulationParameters \<Rightarrow> bool" where
  "finiteParameters p =
     (is_finite (prey_initialPopulation (prey p)) \<and>
      is_finite (birthRate (prey p)) \<and>
      is_finite (carryingCapacity (prey p)) \<and>
      is_finite (predator_initialPopulation (predator p)) \<and>
      is_finite (huntingEfficiency (predator p)) \<and>
      is_finite (deathRate (predator p)) \<and>
      is_finite (resourceAvailability (environment p)) \<and>
      is_finite (seasonalAmplitude (environment p)))"

definition nanPopulations :: "EcosystemSimulator \<Rightarrow> bool" where
  "nanPopulations this = (preyPop this = NaN \<and> predatorPop this = NaN)"

definition recordsSatisfy :: "(jsnum \<Rightarrow> bool) \<Rightarrow> TimeStep list \<Rightarrow> bool" where
  "recordsSatisfy G hs = (\<forall>h \<in> set hs. G (preyPopulation h) \<and> G (predatorPopulation h))"

definition runInvariant ::
  "(jsnum \<Rightarrow> bool) \<Rightarrow> SimulationParameters \<Rightarrow> EcosystemSimulator \<Rightarrow> bool" where
  "runInvariant G p this =
     (params this = p \<and> recordsSatisfy G (history this) \<and>
      G (preyPop this) \<and> G (predatorPop this))"

definition finiteNonNegative :: "jsnum \<Rightarrow> bool" where
  "finiteNonNegative a = (case a of Fin x \<Rightarrow> 0 \<le> x | _ \<Rightarrow> False)"

section \<open>Termination of the simulation loop\<close>

text \<open>
  Every part of the loop body leaves the clock alone except its last statement, which adds
  \<open>dt\<close>; the horizon can only shrink. So the number of steps left to the horizon decreases.
\<close>

lemma checkEquilibrium_time:
  "checkEquilibrium s = (b, s') \<Longrightarrow> currentTime s' = currentTime s \<and> maxTime s' = maxTime s"
  by (auto simp: checkEquilibrium_def Let_def split: if_splits)

lemma equilibriumStep_time:
  "currentTime (equilibriumStep s) = currentTime s \<and> maxTime (equilibriumStep s) \<le> maxTime s"
  by (auto simp: equilibriumStep_def Let_def split: prod.splits bool.splits
      dest: checkEquilibrium_time)

lemma storeHistory_time:
  "storeHistory lr s = (lr', s') \<Longrightarrow> currentTime s' = currentTime s \<and> maxTime s' = maxTime s"
  by (auto simp: storeHistory_def split: if_splits)

lemma integrationStep_time:
  "currentTime (integrationStep s) = currentTime s \<and> maxTime (integrationStep s) = maxTime s"
  by (simp add: integrationStep_def Let_def)

lemma checkExtinction_time:
  "checkExtinction s = (b, s') \<Longrightarrow> currentTime s' = currentTime s \<and> maxTime s' = maxTime s"
  by (auto simp: checkExtinction_def split: if_splits)

lemma loopBody_Continue_time:
  assumes "loopBody lr s = Continue lr' s'"
  shows "currentTime s' = currentTime s + dt \<and> maxTime s' \<le> maxTime s"
proof -
  obtain lr1 s1 where sh: "storeHistory lr s = (lr1, s1)"
    by (cases "storeHistory lr s")
  obtain b s2 where ce: "checkExtinction (integrationStep s1) = (b, s2)"
    by (cases "checkExtinction (integrationStep s1)")
  from assms sh ce
  have s': "s' = (equilibriumStep s2)\<lparr>currentTime := currentTime (equilibriumStep s2) + dt\<rparr>"
    by (cases b) (simp_all add: loopBody_def Let_def)
  have "currentTime s2 = currentTime s \<and> maxTime s2 = maxTime s"
    using storeHistory_time[OF sh] checkExtinction_time[OF ce] integrationStep_time[of s1]
    by simp
  then show ?thesis
    using s' equilibriumStep_time[of s2] by simp
qed

termination simulateLoop
proof (relation "measure (\<lambda>(lr, s). nat \<lceil>(maxTime s - currentTime s) * 100\<rceil>)")
  show "wf (measure (\<lambda>(lr, s). nat \<lceil>(maxTime s - currentTime s) * 100\<rceil>))"
    by simp
next
  fix lastRecord this lr' s'
  assume lt: "currentTime this < maxTime this"
    and body: "loopBody lastRecord this = Continue lr' s'"
  from loopBody_Continue_time[OF body]
  have c: "currentTime s' = currentTime this + dt" and m: "maxTime s' \<le> maxTime this"
    by auto
  have "(maxTime s' - currentTime s') * 100 \<le> (maxTime this - currentTime this) * 100 - 1"
    using c m by (simp add: dt_def)
  then have "\<lceil>(maxTime s' - currentTime s') * 100\<rceil>
      \<le> \<lceil>(maxTime this - currentTime this) * 100\<rceil> - 1"
    by (smt (verit) ceiling_diff_one ceiling_mono)
  moreover have "0 < \<lceil>(maxTime this - currentTime this) * 100\<rceil>"
    using lt by simp
  ultimately show "((lr', s'), lastRecord, this)
      \<in> measure (\<lambda>(lr, s). nat \<lceil>(maxTime s - currentTime s) * 100\<rceil>)"
    by simp
qed

declare simulateLoop.simps [simp del]

section \<open>Equilibrium predictor\<close>

text \<open>
  C1, the claim as stated fails. With \<open>huntingEfficiency = 0\<close> the predictor raises
  nothing: both divisions by zero give \<open>Infinity\<close>, the prey estimate is capped by the
  carrying capacity, and the result \<open>{prey: 4000, predator: Infinity, isStable: true}\<close>
  is returned.
\<close>

theorem predictEquilibrium_zero_hunting_returns:
  "nonNegativeParameters zeroHuntingEfficiency \<and>
   huntingEfficiency (predator zeroHuntingEfficiency) = Fin 0 \<and>
   predictEquilibrium zeroHuntingEfficiency =
     \<lparr> pred_prey = Fin 4000, pred_predator = PosInf, isStable = True \<rparr>"
  by (simp add: predictEquilibrium_def zeroHuntingEfficiency_def balancedEcosystem_def
      nonNegativeParameters_def js_ge_def js_gt_def Math_min_def signed_inf_def Let_def)

lemma js_div_zero_not_finite: "\<not> is_finite (js_div a (Fin 0))"
  by (cases a) (simp_all add: is_finite_def signed_inf_def)

text \<open>
  C1, amended: for every parameter set with \<open>huntingEfficiency = 0\<close> the predictor returns
  a result, and the predator component of that result is not a finite number (it is
  \<open>Infinity\<close>, \<open>-Infinity\<close> or \<open>NaN\<close>).
\<close>

theorem predictEquilibrium_zero_hunting_not_finite:
  assumes "huntingEfficiency (predator p) = Fin 0"
  shows "\<not> is_finite (pred_predator (predictEquilibrium p))"
  using assms by (simp add: predictEquilibrium_def Let_def js_div_zero_not_finite)

theorem predictEquilibrium_zero_hunting_not_finite_witness:
  "huntingEfficiency (predator zeroHuntingEfficiency) = Fin 0 \<and>
   \<not> is_finite (pred_predator (predictEquilibrium zeroHuntingEfficiency))"
proof -
  have h: "huntingEfficiency (predator zeroHuntingEfficiency) = Fin 0"
    by (simp add: zeroHuntingEfficiency_def)
  show ?thesis
    using h predictEquilibrium_zero_hunting_not_finite[OF h] by simp
qed

section \<open>Resource level\<close>

text \<open>
  C2, the claim as stated fails. Without seasonal variation the base level is returned as
  it is, and a parameter set whose fields are all at least 0 can have a base level above 1.
\<close>

theorem calculateResourceLevel_above_one:
  "nonNegativeParameters abundantResources \<and>
   \<not> seasonalVariation (environment abundantResources) \<and>
   calculateResourceLevel (constructor abundantResources) (Fin 0) = Fin 5 \<and>
   \<not> js_le (calculateResourceLevel (constructor abundantResources) (Fin 0)) (Fin 1)"
  by (simp add: calculateResourceLevel_def constructor_def abundantResources_def
      balancedEcosystem_def nonNegativeParameters_def js_ge_def js_le_def Let_def)

lemma clamp_unit_finite:
  "\<exists>r. Math_max (Fin 0) (Math_min (Fin 1) (Fin x)) = Fin r \<and> 0 \<le> r \<and> r \<le> 1"
  by (simp add: Math_max_def Math_min_def)

text \<open>
  C2, amended: for finite base level, amplitude and time, the resource level lies in
  \<open>[0, 1]\<close> when seasonal variation is enabled, and is the base level itself, unchanged,
  when it is disabled.
\<close>

theorem calculateResourceLevel_bounds:
  assumes "resourceAvailability (environment (params this)) = Fin b"
    and "seasonalAmplitude (environment (params this)) = Fin a"
  shows "(seasonalVariation (environment (params this)) \<longrightarrow>
            (\<exists>r. calculateResourceLevel this (Fin t) = Fin r \<and> 0 \<le> r \<and> r \<le> 1)) \<and>
         (\<not> seasonalVariation (environment (params this)) \<longrightarrow>
            calculateResourceLevel this (Fin t) = Fin b)"
  using assms clamp_unit_finite
  by (simp add: calculateResourceLevel_def Let_def Math_PI_def)

theorem calculateResourceLevel_bounds_witness:
  "(\<exists>r. calculateResourceLevel (constructor seasonalEcosystem) (Fin 3) = Fin r
        \<and> 0 \<le> r \<and> r \<le> 1) \<and>
   calculateResourceLevel (constructor balancedEcosystem) (Fin 3) = Fin (7 / 10)"
proof -
  have b: "resourceAvailability (environment (params (constructor seasonalEcosystem)))
      = Fin (7 / 10)"
    and a: "seasonalAmplitude (environment (params (constructor seasonalEcosystem)))
      = Fin (2 / 10)"
    and s: "seasonalVariation (environment (params (constructor seasonalEcosystem)))"
    by (simp_all add: constructor_def seasonalEcosystem_def balancedEcosystem_def)
  have b': "resourceAvailability (environment (params (constructor balancedEcosystem)))
      = Fin (7 / 10)"
    and a': "seasonalAmplitude (environment (params (constructor balancedEcosystem)))
      = Fin (2 / 10)"
    and s': "\<not> seasonalVariation (environment (params (constructor balancedEcosystem)))"
    by (simp_all add: constructor_def balancedEcosystem_def)
  show ?thesis
    using calculateResourceLevel_bounds[OF b a, of 3]
      calculateResourceLevel_bounds[OF b' a', of 3] s s'
    by simp
qed

section \<open>Derivatives\<close>

text \<open>
  C7: for finite parameters with a positive carrying capacity, prey \<open>P \<ge> 0\<close>, predator
  \<open>Q \<ge> 0\<close> and resource level \<open>r\<close>, the derivative function returns
  \<open>dP = birthRate r P - huntingEfficiency P Q - birthRate P\<^sup>2 / carryingCapacity\<close> and
  \<open>dQ = 0.5 huntingEfficiency P Q - deathRate Q s\<close>, where \<open>s\<close> is 2 if \<open>P < 10\<close> and 1
  otherwise.
\<close>

theorem calculateDerivatives_formula:
  assumes "birthRate (prey (params this)) = Fin b"
    and "carryingCapacity (prey (params this)) = Fin K"
    and "huntingEfficiency (predator (params this)) = Fin h"
    and "deathRate (predator (params this)) = Fin d"
    and "0 \<le> P" and "0 \<le> Q" and "0 < K"
  shows "calculateDerivatives this (Fin P) (Fin Q) (Fin r) =
           \<lparr> dPreyDt = Fin (b * r * P - h * P * Q - b * P\<^sup>2 / K),
             dPredatorDt = Fin (0.5 * h * P * Q - d * Q * (if P < 10 then 2 else 1)) \<rparr>"
  using assms by (simp add: calculateDerivatives_def Let_def js_sub_def power2_eq_square)

theorem calculateDerivatives_formula_witness:
  "calculateDerivatives (constructor balancedEcosystem) (Fin 1000) (Fin 100) (Fin (7 / 10)) =
     \<lparr> dPreyDt = Fin (- 500), dPredatorDt = Fin 450 \<rparr> \<and>
   calculateDerivatives (constructor balancedEcosystem) (Fin 5) (Fin 100) (Fin (7 / 10)) =
     \<lparr> dPreyDt = Fin (- 1505 / 1000), dPredatorDt = Fin (- 975 / 10) \<rparr>"
proof -
  have p: "birthRate (prey (params (constructor balancedEcosystem))) = Fin 1"
    "carryingCapacity (prey (params (constructor balancedEcosystem))) = Fin 5000"
    "huntingEfficiency (predator (params (constructor balancedEcosystem))) = Fin (1 / 100)"
    "deathRate (predator (params (constructor balancedEcosystem))) = Fin (1 / 2)"
    by (simp_all add: constructor_def balancedEcosystem_def)
  show ?thesis
    using calculateDerivatives_formula[OF p, of 1000 100 "7 / 10"]
      calculateDerivatives_formula[OF p, of 5 100 "7 / 10"]
    by (simp add: power2_eq_square)
qed

section \<open>Phase space\<close>

lemma phasePoint_derivatives:
  "\<lparr> dPreyDt = pt_dx (phasePoint p n i j), dPredatorDt = pt_dy (phasePoint p n i j) \<rparr> =
     calculateDerivatives (constructor p) (pt_x (phasePoint p n i j)) (pt_y (phasePoint p n i j))
       (resourceAvailability (environment p))"
  by (simp add: phasePoint_def Let_def constructor_def calculateDerivatives_def)

lemma length_concat_const:
  "(\<And>x. x \<in> set xs \<Longrightarrow> length (f x) = n) \<Longrightarrow> length (concat (map f xs)) = length xs * n"
  by (induction xs) auto

lemma calculatePhaseSpace_length: "length (calculatePhaseSpace p n) = n * n"
  by (simp add: calculatePhaseSpace_def length_concat_const)

lemma calculatePhaseSpace_set:
  "set (calculatePhaseSpace p n) = {phasePoint p n i j | i j. i < n \<and> j < n}"
  by (fastforce simp: calculatePhaseSpace_def)

lemma phasePoint_member:
  "i < n \<Longrightarrow> j < n \<Longrightarrow> phasePoint p n i j \<in> set (calculatePhaseSpace p n)"
  unfolding calculatePhaseSpace_set by blast

text \<open>
  C8: for every parameter set and every resolution \<open>n\<close>, the phase space has exactly
  \<open>n\<^sup>2\<close> entries, and the \<open>(dx, dy)\<close> of each entry is the derivative function at the
  entry's \<open>(x, y)\<close> with the base resource level of the environment.
\<close>

theorem calculatePhaseSpace_exact:
  "length (calculatePhaseSpace p n) = n * n \<and>
   (\<forall>e \<in> set (calculatePhaseSpace p n).
      \<lparr> dPreyDt = pt_dx e, dPredatorDt = pt_dy e \<rparr> =
        calculateDerivatives (constructor p) (pt_x e) (pt_y e)
          (resourceAvailability (environment p)))"
  using phasePoint_derivatives by (auto simp: calculatePhaseSpace_length calculatePhaseSpace_set)

theorem calculatePhaseSpace_exact_witness:
  "length (calculatePhaseSpace balancedEcosystem 2) = 4 \<and>
   phasePoint balancedEcosystem 2 1 1 \<in> set (calculatePhaseSpace balancedEcosystem 2) \<and>
   \<lparr> dPreyDt = pt_dx (phasePoint balancedEcosystem 2 1 1),
     dPredatorDt = pt_dy (phasePoint balancedEcosystem 2 1 1) \<rparr> =
     calculateDerivatives (constructor balancedEcosystem) (Fin 2500) (Fin 500) (Fin (7 / 10))"
proof -
  have m: "phasePoint balancedEcosystem 2 1 1 \<in> set (calculatePhaseSpace balancedEcosystem 2)"
    by (simp add: phasePoint_member)
  have c: "pt_x (phasePoint balancedEcosystem 2 1 1) = Fin 2500"
    "pt_y (phasePoint balancedEcosystem 2 1 1) = Fin 500"
    "resourceAvailability (environment balancedEcosystem) = Fin (7 / 10)"
    by (simp_all add: phasePoint_def Let_def balancedEcosystem_def)
  show ?thesis
    using calculatePhaseSpace_exact[of balancedEcosystem 2] m c by auto
qed

text \<open>
  C9, the claim as stated fails. The grid coordinate is \<open>(i / points) * range\<close> for
  \<open>i < points\<close>, so the upper bounds are never sampled: at resolution 2 the prey
  coordinates are 0 and 2500 for a carrying capacity of 5000, the predator coordinates
  0 and 500 for an upper bound of 1000.
\<close>

theorem calculatePhaseSpace_misses_upper_bounds:
  "carryingCapacity (prey balancedEcosystem) = Fin 5000 \<and>
   js_mul (predator_initialPopulation (predator balancedEcosystem)) (Fin 10) = Fin 1000 \<and>
   map pt_x (calculatePhaseSpace balancedEcosystem 2) = [Fin 0, Fin 0, Fin 2500, Fin 2500] \<and>
   map pt_y (calculatePhaseSpace balancedEcosystem 2) = [Fin 0, Fin 500, Fin 0, Fin 500]"
  by (simp add: calculatePhaseSpace_def phasePoint_def Let_def balancedEcosystem_def
      upt_rec numeral_2_eq_2)

lemma phasePoint_coords:
  assumes "carryingCapacity (prey p) = Fin K"
    and "predator_initialPopulation (predator p) = Fin Q0"
    and "0 < n"
  shows "pt_x (phasePoint p n i j) = Fin (real i / real n * K)"
    and "pt_y (phasePoint p n i j) = Fin (real j / real n * (Q0 * 10))"
  using assms by (simp_all add: phasePoint_def Let_def)

lemma grid_fraction:
  assumes "i < n" and "0 \<le> (R::real)"
  shows "0 \<le> real i / real n * R" and "real i / real n * R \<le> (1 - 1 / real n) * R"
proof -
  have n: "0 < real n" using assms(1) by simp
  show "0 \<le> real i / real n * R" using assms(2) by simp
  have "real i \<le> real n - 1" using assms(1) by linarith
  then have "real i / real n \<le> (real n - 1) / real n"
    using n by (simp add: divide_right_mono)
  also have "(real n - 1) / real n = 1 - 1 / real n"
    using n by (simp add: diff_divide_distrib)
  finally have "real i / real n \<le> 1 - 1 / real n" .
  then show "real i / real n * R \<le> (1 - 1 / real n) * R"
    using assms(2) by (rule mult_right_mono)
qed

text \<open>
  C9, amended: for a finite carrying capacity \<open>K \<ge> 0\<close> and a finite initial predator
  population \<open>Q0 \<ge> 0\<close>, every sampled coordinate lies in
  \<open>[0, (1 - 1/n) K] \<times> [0, (1 - 1/n) 10 Q0]\<close>, inside the rectangle
  \<open>[0, K] \<times> [0, 10 Q0]\<close>; for \<open>n \<ge> 1\<close> the grid contains the corner \<open>(0, 0)\<close> and the
  corner \<open>((1 - 1/n) K, (1 - 1/n) 10 Q0)\<close>, its largest point. A positive upper bound
  \<open>K\<close> or \<open>10 Q0\<close> is never a sampled coordinate.
\<close>

theorem calculatePhaseSpace_span:
  assumes K: "carryingCapacity (prey p) = Fin K"
    and Q: "predator_initialPopulation (predator p) = Fin Q0"
    and K0: "0 \<le> K" and Q0: "0 \<le> Q0"
  shows "(\<forall>e \<in> set (calculatePhaseSpace p n).
           \<exists>a b. pt_x e = Fin a \<and> pt_y e = Fin b \<and>
             0 \<le> a \<and> a \<le> (1 - 1 / real n) * K \<and>
             0 \<le> b \<and> b \<le> (1 - 1 / real n) * (Q0 * 10)) \<and>
         (0 < n \<longrightarrow>
           (\<exists>e \<in> set (calculatePhaseSpace p n). pt_x e = Fin 0 \<and> pt_y e = Fin 0) \<and>
           (\<exists>e \<in> set (calculatePhaseSpace p n).
              pt_x e = Fin ((1 - 1 / real n) * K) \<and>
              pt_y e = Fin ((1 - 1 / real n) * (Q0 * 10)))) \<and>
         (0 < K \<longrightarrow> (\<forall>e \<in> set (calculatePhaseSpace p n). pt_x e \<noteq> Fin K)) \<and>
         (0 < Q0 \<longrightarrow> (\<forall>e \<in> set (calculatePhaseSpace p n). pt_y e \<noteq> Fin (Q0 * 10)))"
proof -
  have inside: "\<exists>a b. pt_x e = Fin a \<and> pt_y e = Fin b \<and>
             0 \<le> a \<and> a \<le> (1 - 1 / real n) * K \<and>
             0 \<le> b \<and> b \<le> (1 - 1 / real n) * (Q0 * 10)"
    if "e \<in> set (calculatePhaseSpace p n)" for e
  proof -
    from that obtain i j where e: "e = phasePoint p n i j" and i: "i < n" and j: "j < n"
      by (auto simp: calculatePhaseSpace_set)
    have n: "0 < n" using i by simp
    show ?thesis
      using phasePoint_coords[OF K Q n, of i j] grid_fraction[OF i K0]
        grid_fraction[OF j, of "Q0 * 10"] Q0 e
      by simp
  qed
  have nonempty: "0 < n" if "e \<in> set (calculatePhaseSpace p n)" for e
    using that by (auto simp: calculatePhaseSpace_set)
  have corners: "(\<exists>e \<in> set (calculatePhaseSpace p n). pt_x e = Fin 0 \<and> pt_y e = Fin 0) \<and>
           (\<exists>e \<in> set (calculatePhaseSpace p n).
              pt_x e = Fin ((1 - 1 / real n) * K) \<and>
              pt_y e = Fin ((1 - 1 / real n) * (Q0 * 10)))"
    if n: "0 < n"
  proof -
    have o: "phasePoint p n 0 0 \<in> set (calculatePhaseSpace p n)"
      using n by (simp add: phasePoint_member)
    have m: "phasePoint p n (n - 1) (n - 1) \<in> set (calculatePhaseSpace p n)"
      using n by (simp add: phasePoint_member)
    have "real (n - 1) / real n = 1 - 1 / real n"
      using n by (simp add: of_nat_diff diff_divide_distrib)
    then show ?thesis
      using phasePoint_coords[OF K Q n, of 0 0] phasePoint_coords[OF K Q n, of "n - 1" "n - 1"]
        o m
      by auto
  qed
  have below: "(1 - 1 / real n) * R < R" if "0 < n" and "0 < R" for R :: real
  proof -
    have "0 < 1 / real n" using that(1) by simp
    then have "(1 - 1 / real n) * R < 1 * R"
      using that(2) by (intro mult_strict_right_mono) simp_all
    then show ?thesis by simp
  qed
  have noK: "pt_x e \<noteq> Fin K" if "0 < K" and "e \<in> set (calculatePhaseSpace p n)" for e
    using inside[OF that(2)] below[OF nonempty[OF that(2)] that(1)] by auto
  have noQ: "pt_y e \<noteq> Fin (Q0 * 10)"
    if "0 < Q0" and "e \<in> set (calculatePhaseSpace p n)" for e
    using inside[OF that(2)] below[OF nonempty[OF that(2)], of "Q0 * 10"] that(1) by auto
  show ?thesis
    using inside corners noK noQ by blast
qed

theorem calculatePhaseSpace_span_witness:
  "phasePoint balancedEcosystem 2 1 1 \<in> set (calculatePhaseSpace balancedEcosystem 2) \<and>
   (\<exists>a b. pt_x (phasePoint balancedEcosystem 2 1 1) = Fin a \<and>
          pt_y (phasePoint balancedEcosystem 2 1 1) = Fin b \<and>
          0 \<le> a \<and> a \<le> 2500 \<and> 0 \<le> b \<and> b \<le> 500) \<and>
   (\<exists>e \<in> set (calculatePhaseSpace balancedEcosystem 2). pt_x e = Fin 0 \<and> pt_y e = Fin 0) \<and>
   (\<exists>e \<in> set (calculatePhaseSpace balancedEcosystem 2).
      pt_x e = Fin 2500 \<and> pt_y e = Fin 500)"
proof -
  have K: "carryingCapacity (prey balancedEcosystem) = Fin 5000"
    and Q: "predator_initialPopulation (predator balancedEcosystem) = Fin 100"
    by (simp_all add: balancedEcosystem_def)
  have m: "phasePoint balancedEcosystem 2 1 1 \<in> set (calculatePhaseSpace balancedEcosystem 2)"
    by (simp add: phasePoint_member)
  have "(0::real) \<le> 5000" and "(0::real) \<le> 100" by simp_all
  from calculatePhaseSpace_span[OF K Q this, of 2] m show ?thesis
    by simp
qed

section \<open>The loop body and the heads it reaches\<close>

lemma loopBody_Break:
  "loopBody lr s = Break s' \<longleftrightarrow>
     (extinct (integrationStep (snd (storeHistory lr s))) \<and>
      s' = (integrationStep (snd (storeHistory lr s)))\<lparr> extinctionOccurred := True \<rparr>)"
  by (cases "storeHistory lr s")
    (auto simp: loopBody_def checkExtinction_def extinct_def Let_def)

lemma loopBody_Continue:
  "loopBody lr s = Continue lr' s' \<longleftrightarrow>
     (\<not> extinct (integrationStep (snd (storeHistory lr s))) \<and>
      lr' = fst (storeHistory lr s) \<and>
      s' = (equilibriumStep (integrationStep (snd (storeHistory lr s))))
             \<lparr> currentTime :=
                 currentTime (equilibriumStep (integrationStep (snd (storeHistory lr s)))) + dt \<rparr>)"
  by (cases "storeHistory lr s")
    (auto simp: loopBody_def checkExtinction_def extinct_def Let_def)

lemma loopReach_trans:
  "loopReach b c \<Longrightarrow> loopReach a b \<Longrightarrow> loopReach a c"
  by (induction rule: loopReach.induct) (auto intro: loopReach.intros)

lemma loopReach_simulateLoop:
  "loopReach init c \<Longrightarrow> simulateLoop (fst init) (snd init) = simulateLoop (fst c) (snd c)"
proof (induction rule: loopReach.induct)
  case start
  show ?case by simp
next
  case (iterate lr s lr' s')
  then show ?case by (simp add: simulateLoop.simps[of lr s])
qed

lemma simulateLoop_exit:
  "\<exists>lr' s'. loopReach (lr, s) (lr', s') \<and>
     ((\<not> currentTime s' < maxTime s' \<and> simulateLoop lr s = s') \<or>
      (currentTime s' < maxTime s' \<and> loopBody lr' s' = Break (simulateLoop lr s)))"
proof (induction lr s rule: simulateLoop.induct)
  case (1 lr s)
  show ?case
  proof (cases "currentTime s < maxTime s")
    case False
    then have "simulateLoop lr s = s" by (simp add: simulateLoop.simps[of lr s])
    with False show ?thesis using loopReach.start by blast
  next
    case True
    show ?thesis
    proof (cases "loopBody lr s")
      case (Break s1)
      then have "simulateLoop lr s = s1" using True by (simp add: simulateLoop.simps[of lr s])
      with Break True show ?thesis using loopReach.start by blast
    next
      case (Continue lr1 s1)
      then have eq: "simulateLoop lr s = simulateLoop lr1 s1"
        using True by (simp add: simulateLoop.simps[of lr s])
      have first: "loopReach (lr, s) (lr1, s1)"
        using loopReach.iterate[OF loopReach.start True Continue] .
      from "1.IH"[OF True Continue] obtain lr' s' where
        r: "loopReach (lr1, s1) (lr', s')" and
        e: "(\<not> currentTime s' < maxTime s' \<and> simulateLoop lr1 s1 = s') \<or>
            (currentTime s' < maxTime s' \<and> loopBody lr' s' = Break (simulateLoop lr1 s1))"
        by blast
      from loopReach_trans[OF r first] e eq show ?thesis by auto
    qed
  qed
qed

lemma storeHistory_extinctionOccurred:
  "extinctionOccurred (snd (storeHistory lr s)) = extinctionOccurred s"
  by (simp add: storeHistory_def)

lemma integrationStep_frame:
  "extinctionOccurred (integrationStep s) = extinctionOccurred s"
  "history (integrationStep s) = history s"
  "equilibriumReached (integrationStep s) = equilibriumReached s"
  "equilibriumPoint (integrationStep s) = equilibriumPoint s"
  "params (integrationStep s) = params s"
  by (simp_all add: integrationStep_def Let_def)

lemma equilibriumStep_frame:
  "extinctionOccurred (equilibriumStep s) = extinctionOccurred s"
  "history (equilibriumStep s) = history s"
  "preyPop (equilibriumStep s) = preyPop s"
  "predatorPop (equilibriumStep s) = predatorPop s"
  "params (equilibriumStep s) = params s"
  by (auto simp: equilibriumStep_def checkEquilibrium_def Let_def split: prod.splits bool.splits)

lemma loopBody_Continue_extinctionOccurred:
  "loopBody lr s = Continue lr' s' \<Longrightarrow> extinctionOccurred s' = extinctionOccurred s"
  by (simp add: loopBody_Continue equilibriumStep_frame integrationStep_frame
      storeHistory_extinctionOccurred)

lemma loopReach_extinctionOccurred:
  "loopReach init c \<Longrightarrow> extinctionOccurred (snd c) = extinctionOccurred (snd init)"
  by (induction rule: loopReach.induct) (auto dest: loopBody_Continue_extinctionOccurred)

lemma storeHistory_constructor: "storeHistory 0 (constructor p) = (0, constructor p)"
  by (simp add: storeHistory_def constructor_def recordInterval_def)

section \<open>Extinction\<close>

text \<open>
  C3: in a run started with the extinction flag down, no pass through the loop body ever
  starts with the flag up. At the pass whose integration step leaves a population below 1
  the loop ends with the state of that step and the flag up, and the records of the run
  are those stored before that step followed by the one final record of that state.
  Conversely, a result with the flag up comes from a pass that ended in the \<open>break\<close>.
\<close>

theorem extinction_finality:
  assumes "\<not> extinctionOccurred s0"
    and "loopReach (0, s0) (lr, s)"
  shows "\<not> extinctionOccurred s \<and>
         (currentTime s < maxTime s \<and> extinct (integrationStep (snd (storeHistory lr s))) \<longrightarrow>
            simulateLoop 0 s0 =
              (integrationStep (snd (storeHistory lr s)))\<lparr> extinctionOccurred := True \<rparr> \<and>
            result_extinctionOccurred (simulate s0) \<and>
            timeSteps (simulate s0) =
              history (snd (storeHistory lr s)) @
              [makeRecord ((integrationStep (snd (storeHistory lr s)))
                             \<lparr> extinctionOccurred := True \<rparr>)]) \<and>
         (result_extinctionOccurred (simulate s0) \<longrightarrow>
            (\<exists>lr' s'. loopReach (0, s0) (lr', s') \<and> currentTime s' < maxTime s' \<and>
               loopBody lr' s' = Break (simulateLoop 0 s0)))"
proof (intro conjI impI)
  show "\<not> extinctionOccurred s"
    using loopReach_extinctionOccurred[OF assms(2)] assms(1) by simp
next
  assume a: "currentTime s < maxTime s \<and> extinct (integrationStep (snd (storeHistory lr s)))"
  let ?b = "(integrationStep (snd (storeHistory lr s)))\<lparr> extinctionOccurred := True \<rparr>"
  have "loopBody lr s = Break ?b" using a by (simp add: loopBody_Break)
  then have "simulateLoop lr s = ?b" using a by (simp add: simulateLoop.simps[of lr s])
  then show run: "simulateLoop 0 s0 = ?b"
    using loopReach_simulateLoop[OF assms(2)] by simp
  show "result_extinctionOccurred (simulate s0)"
    by (simp add: simulate_def simulate_state_def getResults_def addFinalState_def run)
  show "timeSteps (simulate s0) = history (snd (storeHistory lr s)) @ [makeRecord ?b]"
    by (simp add: simulate_def simulate_state_def getResults_def addFinalState_def run
        integrationStep_frame)
next
  assume "result_extinctionOccurred (simulate s0)"
  then have fin: "extinctionOccurred (simulateLoop 0 s0)"
    by (simp add: simulate_def simulate_state_def getResults_def addFinalState_def)
  from simulateLoop_exit[of 0 s0] obtain lr' s' where
    r: "loopReach (0, s0) (lr', s')" and
    e: "(\<not> currentTime s' < maxTime s' \<and> simulateLoop 0 s0 = s') \<or>
        (currentTime s' < maxTime s' \<and> loopBody lr' s' = Break (simulateLoop 0 s0))"
    by blast
  have "\<not> extinctionOccurred s'"
    using loopReach_extinctionOccurred[OF r] assms(1) by simp
  with e fin r show "\<exists>lr' s'. loopReach (0, s0) (lr', s') \<and> currentTime s' < maxTime s' \<and>
               loopBody lr' s' = Break (simulateLoop 0 s0)"
    by auto
qed

lemma preyAbsent_step:
  "integrationStep (constructor preyAbsent) =
     (constructor preyAbsent)\<lparr> preyPop := Fin 0, predatorPop := Fin (792039867 / 8000000) \<rparr>"
  by (simp add: integrationStep_def constructor_def preyAbsent_def balancedEcosystem_def
      rungeKutta4Step_def calculateDerivatives_def calculateResourceLevel_def Let_def
      js_sub_def dt_def Math_max_def)

theorem extinction_finality_witness:
  "\<not> extinctionOccurred (constructor preyAbsent) \<and>
   loopReach (0, constructor preyAbsent) (0, constructor preyAbsent) \<and>
   result_extinctionOccurred (simulate (constructor preyAbsent)) \<and>
   timeSteps (simulate (constructor preyAbsent)) =
     [\<lparr> time = Fin 0, preyPopulation = Fin 0, predatorPopulation = Fin 99,
        resourceLevel = Fin (7 / 10) \<rparr>]"
proof -
  let ?c = "constructor preyAbsent"
  have f: "\<not> extinctionOccurred ?c" by (simp add: constructor_def)
  have r: "loopReach (0, ?c) (0, ?c)" by (rule loopReach.start)
  have t: "currentTime ?c < maxTime ?c" by (simp add: constructor_def)
  have e: "extinct (integrationStep (snd (storeHistory 0 ?c)))"
    by (simp add: storeHistory_constructor preyAbsent_step extinct_def)
  have m: "makeRecord ((integrationStep ?c)\<lparr> extinctionOccurred := True \<rparr>) =
      \<lparr> time = Fin 0, preyPopulation = Fin 0, predatorPopulation = Fin 99,
        resourceLevel = Fin (7 / 10) \<rparr>"
    unfolding preyAbsent_step
    by (simp add: makeRecord_def calculateResourceLevel_def constructor_def
        preyAbsent_def balancedEcosystem_def)
  have h: "history ?c = []" by (simp add: constructor_def)
  show ?thesis
    using extinction_finality[OF f r] t e m h f r
    by (simp add: storeHistory_constructor)
qed

section \<open>The first record\<close>

text \<open>
  C10: the simulator as constructed has an empty history and enters the loop; the first
  pass through the body stores no record (at time 0 nothing has elapsed since the last
  record) and applies an integration step, so its history is still empty when the
  populations are already those of the step. The record sequence of the result is never
  empty: its last record is the one pushed after the loop.
\<close>

theorem initial_state_not_recorded:
  "history (constructor p) = [] \<and>
   currentTime (constructor p) < maxTime (constructor p) \<and>
   storeHistory 0 (constructor p) = (0, constructor p) \<and>
   (case loopBody 0 (constructor p) of
      Break this \<Rightarrow>
        history this = [] \<and>
        preyPop this = preyPop (integrationStep (constructor p)) \<and>
        predatorPop this = predatorPop (integrationStep (constructor p)) \<and>
        simulateLoop 0 (constructor p) = this
    | Continue lastRecord this \<Rightarrow>
        history this = [] \<and>
        preyPop this = preyPop (integrationStep (constructor p)) \<and>
        predatorPop this = predatorPop (integrationStep (constructor p)) \<and>
        simulateLoop 0 (constructor p) = simulateLoop lastRecord this) \<and>
   timeSteps (simulate (constructor p)) \<noteq> [] \<and>
   last (timeSteps (simulate (constructor p))) = makeRecord (simulateLoop 0 (constructor p))"
proof -
  let ?c = "constructor p"
  have h: "history ?c = []" and t: "currentTime ?c < maxTime ?c"
    by (simp_all add: constructor_def)
  have body: "case loopBody 0 ?c of
      Break this \<Rightarrow>
        history this = [] \<and>
        preyPop this = preyPop (integrationStep ?c) \<and>
        predatorPop this = predatorPop (integrationStep ?c) \<and>
        simulateLoop 0 ?c = this
    | Continue lastRecord this \<Rightarrow>
        history this = [] \<and>
        preyPop this = preyPop (integrationStep ?c) \<and>
        predatorPop this = predatorPop (integrationStep ?c) \<and>
        simulateLoop 0 ?c = simulateLoop lastRecord this"
  proof (cases "loopBody 0 ?c")
    case (Break s)
    then have s: "s = (integrationStep ?c)\<lparr> extinctionOccurred := True \<rparr>"
      by (simp add: loopBody_Break storeHistory_constructor)
    show ?thesis
      using t h by (simp add: Break simulateLoop.simps[of 0 ?c] s integrationStep_frame)
  next
    case (Continue lr s)
    then have s: "s = (equilibriumStep (integrationStep ?c))
        \<lparr> currentTime := currentTime (equilibriumStep (integrationStep ?c)) + dt \<rparr>"
      by (simp add: loopBody_Continue storeHistory_constructor)
    show ?thesis
      using t h
      by (simp add: Continue simulateLoop.simps[of 0 ?c] s integrationStep_frame
          equilibriumStep_frame)
  qed
  show ?thesis
    using h t body
    by (simp add: storeHistory_constructor simulate_def simulate_state_def getResults_def
        addFinalState_def)
qed

theorem initial_state_not_recorded_witness:
  "history (constructor balancedEcosystem) = [] \<and>
   storeHistory 0 (constructor balancedEcosystem) = (0, constructor balancedEcosystem) \<and>
   timeSteps (simulate (constructor balancedEcosystem)) \<noteq> []"
  using initial_state_not_recorded[of balancedEcosystem] by simp

section \<open>Equilibrium\<close>

subsection \<open>One pass and the equilibrium fields\<close>

lemma checkEquilibrium_False: "checkEquilibrium s = (False, s') \<Longrightarrow> s' = s"
  by (auto simp: checkEquilibrium_def Let_def split: if_splits)

lemma checkEquilibrium_True:
  "checkEquilibrium s = (True, s') \<Longrightarrow>
     s' = s\<lparr> equilibriumReached := True,
              equilibriumPoint := Some (windowMeans s (currentTime s)) \<rparr> \<and>
     equilibriumBufferSize \<le> length (history s)"
  by (auto simp: checkEquilibrium_def windowMeans_def recentWindow_def Let_def split: if_splits)

lemma equilibriumStep_latched:
  "equilibriumReached s \<Longrightarrow> equilibriumStep s = s"
  by (simp add: equilibriumStep_def)

lemma equilibriumStep_cases:
  assumes "\<not> equilibriumReached s"
  shows "equilibriumStep s = s \<or>
         (equilibriumBufferSize \<le> length (history s) \<and>
          equilibriumStep s =
            s\<lparr> equilibriumReached := True,
               equilibriumPoint := Some (windowMeans s (currentTime s)),
               maxTime := currentTime s + min 10 (maxTime s - currentTime s) \<rparr>)"
proof (cases "checkEquilibrium s")
  case (Pair b s')
  show ?thesis
  proof (cases b)
    case True
    with Pair checkEquilibrium_True[of s s'] assms show ?thesis
      by (simp add: equilibriumStep_def Let_def)
  next
    case False
    with Pair checkEquilibrium_False[of s s'] assms show ?thesis
      by (simp add: equilibriumStep_def)
  qed
qed

lemma storeHistory_frame:
  "equilibriumReached (snd (storeHistory lr s)) = equilibriumReached s"
  "equilibriumPoint (snd (storeHistory lr s)) = equilibriumPoint s"
  "currentTime (snd (storeHistory lr s)) = currentTime s"
  "maxTime (snd (storeHistory lr s)) = maxTime s"
  "params (snd (storeHistory lr s)) = params s"
  by (simp_all add: storeHistory_def)

lemma integrationStep_clock:
  "currentTime (integrationStep s) = currentTime s"
  "maxTime (integrationStep s) = maxTime s"
  by (simp_all add: integrationStep_def Let_def)

text \<open>What one complete pass does to the equilibrium fields and the horizon.\<close>

lemma loopBody_Continue_equilibrium:
  assumes "loopBody lr s = Continue lr' s'"
  shows "(equilibriumReached s' = equilibriumReached s \<and>
          equilibriumPoint s' = equilibriumPoint s \<and> maxTime s' = maxTime s) \<or>
         (\<not> equilibriumReached s \<and> equilibriumReached s' \<and>
          equilibriumPoint s' = Some (windowMeans s' (currentTime s)) \<and>
          length (recentWindow s') = equilibriumBufferSize \<and>
          maxTime s' = currentTime s + min 10 (maxTime s - currentTime s))"
proof -
  let ?m = "integrationStep (snd (storeHistory lr s))"
  have s': "s' = (equilibriumStep ?m)\<lparr> currentTime := currentTime (equilibriumStep ?m) + dt \<rparr>"
    using assms by (simp add: loopBody_Continue)
  have m: "equilibriumReached ?m = equilibriumReached s" "equilibriumPoint ?m = equilibriumPoint s"
    "currentTime ?m = currentTime s" "maxTime ?m = maxTime s"
    by (simp_all add: integrationStep_frame integrationStep_clock storeHistory_frame)
  show ?thesis
  proof (cases "equilibriumReached s")
    case True
    then show ?thesis using s' m by (simp add: equilibriumStep_latched)
  next
    case False
    then have "\<not> equilibriumReached ?m" using m by simp
    from equilibriumStep_cases[OF this] show ?thesis
    proof
      assume "equilibriumStep ?m = ?m"
      then show ?thesis using s' m by simp
    next
      assume a: "equilibriumBufferSize \<le> length (history ?m) \<and>
          equilibriumStep ?m =
            ?m\<lparr> equilibriumReached := True,
               equilibriumPoint := Some (windowMeans ?m (currentTime ?m)),
               maxTime := currentTime ?m + min 10 (maxTime ?m - currentTime ?m) \<rparr>"
      then have "windowMeans s' (currentTime s) = windowMeans ?m (currentTime ?m)"
        and "length (recentWindow s') = equilibriumBufferSize"
        using s' m by (simp_all add: windowMeans_def recentWindow_def)
      then show ?thesis using s' m a False by simp
    qed
  qed
qed

lemma loopReach_latched:
  "loopReach init c \<Longrightarrow> equilibriumReached (snd init) \<Longrightarrow>
     equilibriumReached (snd c) \<and> equilibriumPoint (snd c) = equilibriumPoint (snd init) \<and>
     maxTime (snd c) = maxTime (snd init)"
proof (induction rule: loopReach.induct)
  case start
  then show ?case by simp
next
  case (iterate lr s lr' s')
  with loopBody_Continue_equilibrium[OF iterate.hyps(3)] show ?case by auto
qed

lemma loopReach_unlatched:
  "loopReach init c \<Longrightarrow> \<not> equilibriumReached (snd c) \<Longrightarrow>
     \<not> equilibriumReached (snd init) \<and> equilibriumPoint (snd c) = equilibriumPoint (snd init) \<and>
     maxTime (snd c) = maxTime (snd init)"
proof (induction rule: loopReach.induct)
  case start
  then show ?case by simp
next
  case (iterate lr s lr' s')
  with loopBody_Continue_equilibrium[OF iterate.hyps(3)] show ?case by auto
qed

lemma loopBody_Break_frame:
  assumes "loopBody lr s = Break s'"
  shows "equilibriumReached s' = equilibriumReached s"
    and "equilibriumPoint s' = equilibriumPoint s"
    and "currentTime s' = currentTime s"
    and "maxTime s' = maxTime s"
  using assms
  by (simp_all add: loopBody_Break integrationStep_frame integrationStep_clock storeHistory_frame)

lemma simulateLoop_latched:
  assumes "equilibriumReached s"
  shows "equilibriumReached (simulateLoop lr s) \<and>
         equilibriumPoint (simulateLoop lr s) = equilibriumPoint s \<and>
         maxTime (simulateLoop lr s) = maxTime s"
proof -
  from simulateLoop_exit[of lr s] obtain lr' s' where
    r: "loopReach (lr, s) (lr', s')" and
    e: "(\<not> currentTime s' < maxTime s' \<and> simulateLoop lr s = s') \<or>
        (currentTime s' < maxTime s' \<and> loopBody lr' s' = Break (simulateLoop lr s))"
    by blast
  from loopReach_latched[OF r] assms
  have l: "equilibriumReached s'" "equilibriumPoint s' = equilibriumPoint s"
    "maxTime s' = maxTime s"
    by simp_all
  from e show ?thesis
  proof
    assume "\<not> currentTime s' < maxTime s' \<and> simulateLoop lr s = s'"
    with l show ?thesis by simp
  next
    assume "currentTime s' < maxTime s' \<and> loopBody lr' s' = Break (simulateLoop lr s)"
    then have "loopBody lr' s' = Break (simulateLoop lr s)" by simp
    from loopBody_Break_frame[OF this] l show ?thesis by simp
  qed
qed

section \<open>Non-negative populations\<close>

subsection \<open>NaN spreads through a run\<close>

lemma js_add_NaN_right [simp]: "js_add a NaN = NaN"
  by (cases a) simp_all

lemma js_mul_NaN_right [simp]: "js_mul a NaN = NaN"
  by (cases a) simp_all

lemma js_div_NaN_right [simp]: "js_div a NaN = NaN"
  by (cases a) simp_all

lemma js_sub_NaN [simp]: "js_sub NaN b = NaN" "js_sub a NaN = NaN"
  by (simp_all add: js_sub_def)

lemma calculateDerivatives_NaN:
  "calculateDerivatives this NaN NaN r = \<lparr> dPreyDt = NaN, dPredatorDt = NaN \<rparr>"
  by (simp add: calculateDerivatives_def Let_def)

lemma rungeKutta4Step_NaN:
  "rungeKutta4Step this NaN NaN t = \<lparr> pop_prey = NaN, pop_predator = NaN \<rparr>"
  by (simp add: rungeKutta4Step_def Let_def calculateDerivatives_NaN Math_max_def)

lemma integrationStep_NaN: "nanPopulations s \<Longrightarrow> nanPopulations (integrationStep s)"
  by (simp add: nanPopulations_def integrationStep_def rungeKutta4Step_NaN)

lemma storeHistory_pops:
  "preyPop (snd (storeHistory lr s)) = preyPop s"
  "predatorPop (snd (storeHistory lr s)) = predatorPop s"
  by (simp_all add: storeHistory_def)

lemma loopBody_NaN:
  assumes "nanPopulations s"
  shows "case loopBody lr s of Break s' \<Rightarrow> nanPopulations s'
         | Continue lr' s' \<Rightarrow> nanPopulations s'"
proof -
  let ?m = "integrationStep (snd (storeHistory lr s))"
  have "nanPopulations (snd (storeHistory lr s))"
    using assms by (simp add: nanPopulations_def storeHistory_pops)
  then have m: "nanPopulations ?m" by (rule integrationStep_NaN)
  show ?thesis
  proof (cases "loopBody lr s")
    case (Break s')
    then have "s' = ?m\<lparr> extinctionOccurred := True \<rparr>" by (simp add: loopBody_Break)
    with m Break show ?thesis by (simp add: nanPopulations_def)
  next
    case (Continue lr' s')
    then have "s' = (equilibriumStep ?m)\<lparr> currentTime := currentTime (equilibriumStep ?m) + dt \<rparr>"
      by (simp add: loopBody_Continue)
    with m Continue show ?thesis by (simp add: nanPopulations_def equilibriumStep_frame)
  qed
qed

lemma simulateLoop_NaN: "nanPopulations s \<Longrightarrow> nanPopulations (simulateLoop lr s)"
proof (induction lr s rule: simulateLoop.induct)
  case (1 lr s)
  show ?case
  proof (cases "currentTime s < maxTime s")
    case False
    then show ?thesis using "1.prems" by (simp add: simulateLoop.simps[of lr s])
  next
    case True
    show ?thesis
    proof (cases "loopBody lr s")
      case (Break s')
      with loopBody_NaN[OF "1.prems", of lr] True show ?thesis
        by (simp add: simulateLoop.simps[of lr s])
    next
      case (Continue lr' s')
      with loopBody_NaN[OF "1.prems", of lr] have "nanPopulations s'" by simp
      from "1.IH"[OF True Continue this] Continue True show ?thesis
        by (simp add: simulateLoop.simps[of lr s])
    qed
  qed
qed

lemma zeroCarryingCapacity_step:
  "rungeKutta4Step (constructor zeroCarryingCapacity) (Fin 1000) (Fin 100) (Fin 0) =
     \<lparr> pop_prey = NaN, pop_predator = NaN \<rparr>"
  by (simp add: rungeKutta4Step_def calculateDerivatives_def calculateResourceLevel_def
      constructor_def zeroCarryingCapacity_def balancedEcosystem_def Let_def js_sub_def dt_def
      Math_max_def signed_inf_def)

lemma simulateLoop_NaN_after_step:
  assumes m: "nanPopulations (integrationStep (snd (storeHistory lr s)))"
    and t: "currentTime s < maxTime s"
  shows "nanPopulations (simulateLoop lr s)"
proof (cases "loopBody lr s")
  case (Break s')
  then have "s' = (integrationStep (snd (storeHistory lr s)))\<lparr> extinctionOccurred := True \<rparr>"
    by (simp add: loopBody_Break)
  with m Break t show ?thesis
    by (simp add: simulateLoop.simps[of lr s] nanPopulations_def)
next
  case (Continue lr' s')
  let ?m = "integrationStep (snd (storeHistory lr s))"
  from Continue
  have "s' = (equilibriumStep ?m)\<lparr> currentTime := currentTime (equilibriumStep ?m) + dt \<rparr>"
    by (simp add: loopBody_Continue)
  with m have "nanPopulations s'"
    by (simp add: nanPopulations_def equilibriumStep_frame)
  then have "nanPopulations (simulateLoop lr' s')" by (rule simulateLoop_NaN)
  with Continue t show ?thesis by (simp add: simulateLoop.simps[of lr s])
qed

lemma makeRecord_NaN:
  "nanPopulations s \<Longrightarrow>
     preyPopulation (makeRecord s) = NaN \<and> predatorPopulation (makeRecord s) = NaN"
  by (simp add: nanPopulations_def makeRecord_def)

text \<open>
  C6, the claim as stated fails. With \<open>carryingCapacity = 0\<close> the competition term of the
  first derivative is \<open>1000000 / 0 = Infinity\<close>, the later stages subtract infinities, and
  \<open>Math.max(0, NaN)\<close> is NaN: the first step takes the populations (1000, 100) to
  (NaN, NaN). \<open>NaN < 1\<close> is false, so no extinction is seen, and the final record of the
  run has NaN populations, which are not \<open>\<ge> 0\<close>.
\<close>

theorem zero_carryingCapacity_records_NaN:
  "nonNegativeParameters zeroCarryingCapacity \<and>
   carryingCapacity (prey zeroCarryingCapacity) = Fin 0 \<and>
   rungeKutta4Step (constructor zeroCarryingCapacity) (Fin 1000) (Fin 100) (Fin 0) =
     \<lparr> pop_prey = NaN, pop_predator = NaN \<rparr> \<and>
   preyPopulation (last (timeSteps (simulate (constructor zeroCarryingCapacity)))) = NaN \<and>
   predatorPopulation (last (timeSteps (simulate (constructor zeroCarryingCapacity)))) = NaN \<and>
   \<not> js_ge NaN (Fin 0)"
proof -
  let ?c = "constructor zeroCarryingCapacity"
  have v: "nonNegativeParameters zeroCarryingCapacity"
    "carryingCapacity (prey zeroCarryingCapacity) = Fin 0"
    by (simp_all add: nonNegativeParameters_def zeroCarryingCapacity_def balancedEcosystem_def
        js_ge_def)
  have i: "preyPop ?c = Fin 1000" "predatorPop ?c = Fin 100" "currentTime ?c = 0"
    by (simp_all add: constructor_def zeroCarryingCapacity_def balancedEcosystem_def)
  have "nanPopulations (integrationStep ?c)"
    by (simp add: integrationStep_def i zeroCarryingCapacity_step nanPopulations_def)
  then have "nanPopulations (integrationStep (snd (storeHistory 0 ?c)))"
    by (simp add: storeHistory_constructor)
  moreover have "currentTime ?c < maxTime ?c" by (simp add: constructor_def)
  ultimately have "nanPopulations (simulateLoop 0 ?c)"
    by (rule simulateLoop_NaN_after_step)
  from makeRecord_NaN[OF this]
  have "preyPopulation (last (timeSteps (simulate ?c))) = NaN"
    "predatorPopulation (last (timeSteps (simulate ?c))) = NaN"
    by (simp_all add: simulate_def simulate_state_def getResults_def addFinalState_def)
  with v zeroCarryingCapacity_step show ?thesis
    by (simp add: js_ge_def)
qed

subsection \<open>Populations that are at least 0\<close>

lemma Math_max_zero: "nonNegativeOrNaN (Math_max (Fin 0) a)"
  by (cases a) (simp_all add: nonNegativeOrNaN_def Math_max_def js_ge_def)

lemma rungeKutta4Step_nonNegativeOrNaN:
  "nonNegativeOrNaN (pop_prey (rungeKutta4Step this P Q t)) \<and>
   nonNegativeOrNaN (pop_predator (rungeKutta4Step this P Q t))"
  by (simp add: rungeKutta4Step_def Let_def Math_max_zero)

lemma rounded_nonNegativeOrNaN:
  "nonNegativeOrNaN a \<Longrightarrow> nonNegativeOrNaN (js_div (Math_round (js_mul a (Fin 10))) (Fin 10))"
proof (cases a)
  case (Fin x)
  assume "nonNegativeOrNaN a"
  then have "0 \<le> x" using Fin by (simp add: nonNegativeOrNaN_def js_ge_def)
  then have "0 \<le> \<lfloor>x * 10 + 1 / 2\<rfloor>" by simp
  then show ?thesis using Fin by (simp add: nonNegativeOrNaN_def js_ge_def)
qed (simp_all add: nonNegativeOrNaN_def js_ge_def signed_inf_def)

lemma storeHistory_runInvariant:
  assumes round: "\<And>a. G a \<Longrightarrow> G (js_div (Math_round (js_mul a (Fin 10))) (Fin 10))"
    and "runInvariant G p s"
  shows "runInvariant G p (snd (storeHistory lr s))"
  using assms(2) round
  by (simp add: storeHistory_def runInvariant_def recordsSatisfy_def makeRecord_def)

lemma pass_runInvariant:
  assumes step: "\<And>s. params s = p \<Longrightarrow> K (preyPop s) (predatorPop s) \<Longrightarrow>
        G (preyPop (integrationStep s)) \<and> G (predatorPop (integrationStep s))"
    and h: "params s = p" "recordsSatisfy G (history (snd (storeHistory lr s)))"
      "K (preyPop s) (predatorPop s)"
  shows "case loopBody lr s of Break s' \<Rightarrow> runInvariant G p s'
         | Continue lr' s' \<Rightarrow> runInvariant G p s'"
proof -
  let ?a = "snd (storeHistory lr s)"
  let ?m = "integrationStep ?a"
  have "params ?a = p" "K (preyPop ?a) (predatorPop ?a)"
    using h by (simp_all add: storeHistory_frame storeHistory_pops)
  from step[OF this] h
  have m: "runInvariant G p ?m"
    by (simp add: runInvariant_def integrationStep_frame storeHistory_frame)
  show ?thesis
  proof (cases "loopBody lr s")
    case (Break s')
    then have "s' = ?m\<lparr> extinctionOccurred := True \<rparr>" by (simp add: loopBody_Break)
    with m Break show ?thesis by (simp add: runInvariant_def)
  next
    case (Continue lr' s')
    then have "s' = (equilibriumStep ?m)\<lparr> currentTime := currentTime (equilibriumStep ?m) + dt \<rparr>"
      by (simp add: loopBody_Continue)
    with m Continue show ?thesis by (simp add: runInvariant_def equilibriumStep_frame)
  qed
qed

lemma simulateLoop_runInvariant:
  assumes round: "\<And>a. G a \<Longrightarrow> G (js_div (Math_round (js_mul a (Fin 10))) (Fin 10))"
    and step: "\<And>s. params s = p \<Longrightarrow> K (preyPop s) (predatorPop s) \<Longrightarrow>
        G (preyPop (integrationStep s)) \<and> G (predatorPop (integrationStep s))"
    and GK: "\<And>P Q. G P \<Longrightarrow> G Q \<Longrightarrow> K P Q"
  shows "runInvariant G p s \<Longrightarrow> runInvariant G p (simulateLoop lr s)"
proof (induction lr s rule: simulateLoop.induct)
  case (1 lr s)
  show ?case
  proof (cases "currentTime s < maxTime s")
    case False
    then show ?thesis using "1.prems" by (simp add: simulateLoop.simps[of lr s])
  next
    case True
    have a: "params s = p" "K (preyPop s) (predatorPop s)"
      using "1.prems" GK by (simp_all add: runInvariant_def)
    have b: "recordsSatisfy G (history (snd (storeHistory lr s)))"
      using storeHistory_runInvariant[OF round "1.prems"] by (simp add: runInvariant_def)
    note pass = pass_runInvariant[where K = K, OF step a(1) b a(2)]
    show ?thesis
    proof (cases "loopBody lr s")
      case (Break s')
      with pass True show ?thesis
        by (simp add: simulateLoop.simps[of lr s])
    next
      case (Continue lr' s')
      with pass have "runInvariant G p s'" by simp
      from "1.IH"[OF True Continue this] Continue True show ?thesis
        by (simp add: simulateLoop.simps[of lr s])
    qed
  qed
qed

lemma simulate_recordsSatisfy:
  assumes round: "\<And>a. G a \<Longrightarrow> G (js_div (Math_round (js_mul a (Fin 10))) (Fin 10))"
    and step: "\<And>s. params s = p \<Longrightarrow> K (preyPop s) (predatorPop s) \<Longrightarrow>
        G (preyPop (integrationStep s)) \<and> G (predatorPop (integrationStep s))"
    and GK: "\<And>P Q. G P \<Longrightarrow> G Q \<Longrightarrow> K P Q"
    and init: "K (prey_initialPopulation (prey p)) (predator_initialPopulation (predator p))"
  shows "recordsSatisfy G (timeSteps (simulate (constructor p)))"
proof -
  let ?c = "constructor p"
  have c: "params ?c = p" "K (preyPop ?c) (predatorPop ?c)" "currentTime ?c < maxTime ?c"
    "recordsSatisfy G (history (snd (storeHistory 0 ?c)))"
    using init by (simp_all add: storeHistory_constructor) (simp_all add: constructor_def recordsSatisfy_def)
  note pass = pass_runInvariant[where K = K, OF step c(1) c(4) c(2)]
  have "runInvariant G p (simulateLoop 0 ?c)"
  proof (cases "loopBody 0 ?c")
    case (Break s')
    with pass c(3) show ?thesis by (simp add: simulateLoop.simps[of 0 ?c])
  next
    case (Continue lr' s')
    with pass have "runInvariant G p s'" by simp
    from simulateLoop_runInvariant[where K = K, OF round step GK this] Continue c(3)
    show ?thesis by (simp add: simulateLoop.simps[of 0 ?c])
  qed
  then show ?thesis
    using round
    by (simp add: simulate_def simulate_state_def getResults_def addFinalState_def
        runInvariant_def recordsSatisfy_def makeRecord_def)
qed

lemma is_finite_Fin: "is_finite a \<longleftrightarrow> (\<exists>x. a = Fin x)"
  by (cases a) (simp_all add: is_finite_def)

lemma finiteNonNegative_Fin: "finiteNonNegative a \<longleftrightarrow> (\<exists>x. a = Fin x \<and> 0 \<le> x)"
  by (cases a) (simp_all add: finiteNonNegative_def)

lemma calculateResourceLevel_finite:
  assumes "finiteParameters (params this)"
  shows "\<exists>r. calculateResourceLevel this (Fin u) = Fin r"
proof -
  from assms obtain b a where
    "resourceAvailability (environment (params this)) = Fin b"
    "seasonalAmplitude (environment (params this)) = Fin a"
    by (auto simp: finiteParameters_def is_finite_Fin)
  then show ?thesis
    using clamp_unit_finite[of "b + a * sin (2 * pi * u / 12)"]
    by (cases "seasonalVariation (environment (params this))")
      (auto simp: calculateResourceLevel_def Let_def Math_PI_def)
qed

lemma calculateDerivatives_Fin:
  assumes "birthRate (prey (params this)) = Fin b"
    and "carryingCapacity (prey (params this)) = Fin K"
    and "huntingEfficiency (predator (params this)) = Fin h"
    and "deathRate (predator (params this)) = Fin d"
    and "K \<noteq> 0"
  shows "calculateDerivatives this (Fin P) (Fin Q) (Fin r) =
           \<lparr> dPreyDt = Fin (b * r * P - h * P * Q - b * P * P / K),
             dPredatorDt = Fin (h * (1 / 2) * P * Q - d * Q * (if P < 10 then 2 else 1)) \<rparr>"
  using assms by (simp add: calculateDerivatives_def Let_def js_sub_def)

lemma Math_max_zero_Fin: "\<exists>a. Math_max (Fin 0) (Fin e) = Fin a \<and> 0 \<le> a"
  by (simp add: Math_max_def)

lemma rungeKutta4Step_finite:
  assumes f: "finiteParameters (params this)"
    and K: "carryingCapacity (prey (params this)) \<noteq> Fin 0"
  shows "\<exists>a b. rungeKutta4Step this (Fin P) (Fin Q) (Fin u) =
           \<lparr> pop_prey = Fin a, pop_predator = Fin b \<rparr> \<and> 0 \<le> a \<and> 0 \<le> b"
proof -
  from f obtain b c h d where p:
    "birthRate (prey (params this)) = Fin b"
    "carryingCapacity (prey (params this)) = Fin c"
    "huntingEfficiency (predator (params this)) = Fin h"
    "deathRate (predator (params this)) = Fin d"
    by (auto simp: finiteParameters_def is_finite_Fin)
  then have c: "c \<noteq> 0" using K by simp
  from calculateResourceLevel_finite[OF f, of u] obtain r where
    r: "calculateResourceLevel this (Fin u) = Fin r" by blast
  define fx where "fx = (\<lambda>P Q. b * r * P - h * P * Q - b * P * P / c)"
  define fy where "fy = (\<lambda>P Q. h * (1 / 2) * P * Q - d * Q * (if P < 10 then 2 else 1))"
  have d: "\<And>P Q. calculateDerivatives this (Fin P) (Fin Q) (Fin r) =
      \<lparr> dPreyDt = Fin (fx P Q), dPredatorDt = Fin (fy P Q) \<rparr>"
    unfolding fx_def fy_def by (rule calculateDerivatives_Fin[OF p c])
  have "\<exists>e1 e2. rungeKutta4Step this (Fin P) (Fin Q) (Fin u) =
      \<lparr> pop_prey = Math_max (Fin 0) (Fin e1), pop_predator = Math_max (Fin 0) (Fin e2) \<rparr>"
    unfolding rungeKutta4Step_def Let_def r by (simp add: d) blast
  then obtain e1 e2 where "rungeKutta4Step this (Fin P) (Fin Q) (Fin u) =
      \<lparr> pop_prey = Math_max (Fin 0) (Fin e1), pop_predator = Math_max (Fin 0) (Fin e2) \<rparr>"
    by blast
  with Math_max_zero_Fin[of e1] Math_max_zero_Fin[of e2] show ?thesis
    by auto
qed

lemma integrationStep_finiteNonNegative:
  assumes "finiteParameters p" and "carryingCapacity (prey p) \<noteq> Fin 0"
    and "params s = p" and "is_finite (preyPop s) \<and> is_finite (predatorPop s)"
  shows "finiteNonNegative (preyPop (integrationStep s)) \<and>
         finiteNonNegative (predatorPop (integrationStep s))"
proof -
  from assms(4) obtain P Q where pq: "preyPop s = Fin P" "predatorPop s = Fin Q"
    by (auto simp: is_finite_Fin)
  from rungeKutta4Step_finite[of s P Q "currentTime s"] assms(1-3)
  show ?thesis
    by (auto simp: integrationStep_def pq finiteNonNegative_Fin)
qed

lemma rounded_finiteNonNegative:
  "finiteNonNegative a \<Longrightarrow> finiteNonNegative (js_div (Math_round (js_mul a (Fin 10))) (Fin 10))"
proof -
  assume "finiteNonNegative a"
  then obtain x where x: "a = Fin x" "0 \<le> x" by (auto simp: finiteNonNegative_Fin)
  then have "0 \<le> \<lfloor>x * 10 + 1 / 2\<rfloor>" by simp
  then show ?thesis using x by (simp add: finiteNonNegative_def)
qed

lemma finiteNonNegative_ge: "finiteNonNegative a \<Longrightarrow> js_ge a (Fin 0)"
  by (cases a) (simp_all add: finiteNonNegative_def js_ge_def)

text \<open>
  C6, amended: each population that an integrator step returns, and each population of
  each record of a run, is at least 0 or NaN. When the parameters (the initial populations
  among them) are finite and the carrying capacity is not 0, an integrator step from
  finite populations returns populations that are at least 0, and every record of the
  run has \<open>preyPopulation \<ge> 0\<close> and \<open>predatorPopulation \<ge> 0\<close>.
\<close>

theorem populations_nonNegative:
  "nonNegativeOrNaN (pop_prey (rungeKutta4Step this P Q t)) \<and>
   nonNegativeOrNaN (pop_predator (rungeKutta4Step this P Q t)) \<and>
   (\<forall>h \<in> set (timeSteps (simulate (constructor p))).
      nonNegativeOrNaN (preyPopulation h) \<and> nonNegativeOrNaN (predatorPopulation h)) \<and>
   (finiteParameters (params this) \<and> carryingCapacity (prey (params this)) \<noteq> Fin 0 \<longrightarrow>
      js_ge (pop_prey (rungeKutta4Step this (Fin x) (Fin y) (Fin u))) (Fin 0) \<and>
      js_ge (pop_predator (rungeKutta4Step this (Fin x) (Fin y) (Fin u))) (Fin 0)) \<and>
   (finiteParameters p \<and> carryingCapacity (prey p) \<noteq> Fin 0 \<longrightarrow>
      (\<forall>h \<in> set (timeSteps (simulate (constructor p))).
         js_ge (preyPopulation h) (Fin 0) \<and> js_ge (predatorPopulation h) (Fin 0)))"
proof (intro conjI impI)
  show "nonNegativeOrNaN (pop_prey (rungeKutta4Step this P Q t))"
    and "nonNegativeOrNaN (pop_predator (rungeKutta4Step this P Q t))"
    using rungeKutta4Step_nonNegativeOrNaN[of this P Q t] by simp_all
next
  have "recordsSatisfy nonNegativeOrNaN (timeSteps (simulate (constructor p)))"
  proof (rule simulate_recordsSatisfy[where K = "\<lambda>P Q. True"])
    fix s :: EcosystemSimulator
    show "nonNegativeOrNaN (preyPop (integrationStep s)) \<and>
          nonNegativeOrNaN (predatorPop (integrationStep s))"
      using rungeKutta4Step_nonNegativeOrNaN by (simp add: integrationStep_def Let_def)
  qed (simp_all add: rounded_nonNegativeOrNaN)
  then show "\<forall>h \<in> set (timeSteps (simulate (constructor p))).
      nonNegativeOrNaN (preyPopulation h) \<and> nonNegativeOrNaN (predatorPopulation h)"
    by (simp add: recordsSatisfy_def)
next
  assume a: "finiteParameters (params this) \<and> carryingCapacity (prey (params this)) \<noteq> Fin 0"
  then obtain a b where "rungeKutta4Step this (Fin x) (Fin y) (Fin u) =
      \<lparr> pop_prey = Fin a, pop_predator = Fin b \<rparr>" "0 \<le> a" "0 \<le> b"
    using rungeKutta4Step_finite[of this x y u] by blast
  then show "js_ge (pop_prey (rungeKutta4Step this (Fin x) (Fin y) (Fin u))) (Fin 0)"
    and "js_ge (pop_predator (rungeKutta4Step this (Fin x) (Fin y) (Fin u))) (Fin 0)"
    by (simp_all add: js_ge_def)
next
  assume a: "finiteParameters p \<and> carryingCapacity (prey p) \<noteq> Fin 0"
  have "recordsSatisfy finiteNonNegative (timeSteps (simulate (constructor p)))"
  proof (rule simulate_recordsSatisfy[where K = "\<lambda>P Q. is_finite P \<and> is_finite Q"])
    fix s :: EcosystemSimulator
    assume "params s = p" "is_finite (preyPop s) \<and> is_finite (predatorPop s)"
    with a show "finiteNonNegative (preyPop (integrationStep s)) \<and>
          finiteNonNegative (predatorPop (integrationStep s))"
      using integrationStep_finiteNonNegative by blast
  next
    fix P Q assume "finiteNonNegative P" "finiteNonNegative Q"
    then show "is_finite P \<and> is_finite Q"
      by (auto simp: finiteNonNegative_Fin is_finite_Fin)
  next
    show "is_finite (prey_initialPopulation (prey p)) \<and>
          is_finite (predator_initialPopulation (predator p))"
      using a by (simp add: finiteParameters_def)
  qed (simp add: rounded_finiteNonNegative)
  then show "\<forall>h \<in> set (timeSteps (simulate (constructor p))).
         js_ge (preyPopulation h) (Fin 0) \<and> js_ge (predatorPopulation h) (Fin 0)"
    by (simp add: recordsSatisfy_def finiteNonNegative_ge)
qed

lemma simulate_last:
  "timeSteps (simulate s) \<noteq> [] \<and> last (timeSteps (simulate s)) = makeRecord (simulateLoop 0 s)"
  by (simp add: simulate_def simulate_state_def getResults_def addFinalState_def)

theorem populations_nonNegative_witness:
  "finiteParameters balancedEcosystem \<and>
   carryingCapacity (prey balancedEcosystem) \<noteq> Fin 0 \<and>
   js_ge (preyPopulation (last (timeSteps (simulate (constructor balancedEcosystem))))) (Fin 0) \<and>
   js_ge (predatorPopulation (last (timeSteps (simulate (constructor balancedEcosystem)))))
     (Fin 0) \<and>
   js_ge (pop_prey (rungeKutta4Step (constructor balancedEcosystem) (Fin 1000) (Fin 100) (Fin 0)))
     (Fin 0) \<and>
   js_ge (pop_predator
     (rungeKutta4Step (constructor balancedEcosystem) (Fin 1000) (Fin 100) (Fin 0))) (Fin 0)"
proof -
  have f: "finiteParameters balancedEcosystem"
    "carryingCapacity (prey balancedEcosystem) \<noteq> Fin 0"
    by (simp_all add: finiteParameters_def balancedEcosystem_def is_finite_def)
  have f': "finiteParameters (params (constructor balancedEcosystem))"
    "carryingCapacity (prey (params (constructor balancedEcosystem))) \<noteq> Fin 0"
    using f by (simp_all add: constructor_def)
  have m: "last (timeSteps (simulate (constructor balancedEcosystem)))
      \<in> set (timeSteps (simulate (constructor balancedEcosystem)))"
    using simulate_last[of "constructor balancedEcosystem"] by (intro last_in_set) blast
  show ?thesis
    using populations_nonNegative[of "constructor balancedEcosystem" "Fin 1000" "Fin 100" "Fin 0"
        balancedEcosystem 1000 100 0] f f' m
    by blast
qed

section \<open>Equilibrium latch and horizon\<close>

subsection \<open>A stable window has finite samples, and its average is their mean\<close>

lemma js_add_Fin_iff: "js_add a b = Fin r \<longleftrightarrow> (\<exists>x y. a = Fin x \<and> b = Fin y \<and> r = x + y)"
  by (cases a; cases b) auto

lemma js_div_Fin_iff:
  "n \<noteq> 0 \<Longrightarrow> js_div a (Fin n) = Fin r \<longleftrightarrow> (\<exists>x. a = Fin x \<and> r = x / n)"
  by (cases a) auto

lemma foldl_js_add_finite:
  "foldl (\<lambda>sum h. js_add sum (g h)) acc xs = Fin r \<Longrightarrow>
     \<exists>a vs. acc = Fin a \<and> map g xs = map Fin vs \<and> r = a + sum_list vs"
proof (induction xs arbitrary: acc r)
  case Nil
  then show ?case by simp
next
  case (Cons x xs)
  from Cons.prems have "foldl (\<lambda>sum h. js_add sum (g h)) (js_add acc (g x)) xs = Fin r"
    by simp
  from Cons.IH[OF this] obtain a' vs where
    a': "js_add acc (g x) = Fin a'" and vs: "map g xs = map Fin vs" and r: "r = a' + sum_list vs"
    by blast
  from a' obtain a y where "acc = Fin a" "g x = Fin y" "a' = a + y"
    by (auto simp: js_add_Fin_iff)
  with vs r have "acc = Fin a \<and> map g (x # xs) = map Fin (y # vs) \<and> r = a + sum_list (y # vs)"
    by simp
  then show ?case by blast
qed

lemma window_mean_Fin:
  assumes "xs \<noteq> []" and "window_mean f xs = Fin m"
  shows "\<exists>vs. map f xs = map Fin vs \<and> m = arithmeticMean vs"
proof -
  have n: "real (length xs) \<noteq> 0" using assms(1) by simp
  from assms(2) obtain x where
    "foldl (\<lambda>sum h. js_add sum (f h)) (Fin 0) xs = Fin x" and m: "m = x / real (length xs)"
    unfolding window_mean_def js_div_Fin_iff[OF n] by blast
  from foldl_js_add_finite[OF this(1)] obtain vs where
    vs: "map f xs = map Fin vs" and x: "x = sum_list vs"
    by auto
  from vs have "length vs = length xs" by (metis length_map)
  with m x vs show ?thesis by (auto simp: arithmeticMean_def)
qed

lemma js_sub_infinite:
  "avg = PosInf \<or> avg = NegInf \<Longrightarrow> Math_pow2 (js_sub y avg) \<noteq> Fin v"
  by (cases y) (auto simp: Math_pow2_def js_sub_def)

lemma window_variance_infinite:
  assumes "xs \<noteq> []" and "avg = PosInf \<or> avg = NegInf"
  shows "window_variance f avg xs \<noteq> Fin v"
proof
  assume a: "window_variance f avg xs = Fin v"
  have n: "real (length xs) \<noteq> 0" using assms(1) by simp
  from a obtain x where
    "foldl (\<lambda>sum h. js_add sum (Math_pow2 (js_sub (f h) avg))) (Fin 0) xs = Fin x"
    unfolding window_variance_def js_div_Fin_iff[OF n] by blast
  from foldl_js_add_finite[OF this] obtain vs where
    "map (\<lambda>h. Math_pow2 (js_sub (f h) avg)) xs = map Fin vs" by blast
  with assms(1) obtain h w where "Math_pow2 (js_sub (f h) avg) = Fin w"
    by (cases xs; cases vs) auto
  with js_sub_infinite[OF assms(2)] show False by blast
qed

lemma stable_mean_finite:
  assumes "xs \<noteq> []"
    and "js_lt (js_div (Math_sqrt (window_variance f avg xs)) avg) tol"
  shows "\<exists>m. avg = Fin m"
proof (cases avg)
  case (Fin m)
  then show ?thesis by simp
next
  case PosInf
  with window_variance_infinite[OF assms(1), of avg f] assms(2) show ?thesis
    by (cases "window_variance f avg xs") auto
next
  case NegInf
  with window_variance_infinite[OF assms(1), of avg f] assms(2) show ?thesis
    by (cases "window_variance f avg xs") auto
next
  case NaN
  with assms(2) show ?thesis
    by (cases "Math_sqrt (window_variance f NaN xs)") auto
qed

lemma checkEquilibrium_True_means:
  assumes "checkEquilibrium s = (True, s')"
  shows "\<exists>ps qs. length (recentWindow s) = 50 \<and>
           map preyPopulation (recentWindow s) = map Fin ps \<and>
           map predatorPopulation (recentWindow s) = map Fin qs \<and>
           window_mean preyPopulation (recentWindow s) = Fin (arithmeticMean ps) \<and>
           window_mean predatorPopulation (recentWindow s) = Fin (arithmeticMean qs)"
proof -
  let ?w = "recentWindow s"
  from assms have len: "equilibriumBufferSize \<le> length (history s)"
    and sp: "js_lt (js_div (Math_sqrt (window_variance preyPopulation
               (window_mean preyPopulation ?w) ?w)) (window_mean preyPopulation ?w))
             equilibriumTolerance"
    and sq: "js_lt (js_div (Math_sqrt (window_variance predatorPopulation
               (window_mean predatorPopulation ?w) ?w)) (window_mean predatorPopulation ?w))
             equilibriumTolerance"
    by (auto simp: checkEquilibrium_def recentWindow_def Let_def split: if_splits)
  from len have l: "length ?w = 50"
    by (simp add: recentWindow_def equilibriumBufferSize_def)
  then have ne: "?w \<noteq> []" by auto
  from stable_mean_finite[OF ne sp] obtain mp where mp: "window_mean preyPopulation ?w = Fin mp"
    by blast
  from stable_mean_finite[OF ne sq] obtain mq where
    mq: "window_mean predatorPopulation ?w = Fin mq"
    by blast
  from window_mean_Fin[OF ne mp] window_mean_Fin[OF ne mq] mp mq l show ?thesis
    by blast
qed

subsection \<open>The pass that raises the flag, and the end of the run\<close>

lemma loopBody_Continue_rise:
  assumes b: "loopBody lr s = Continue lr' s'"
    and n: "\<not> equilibriumReached s" and e: "equilibriumReached s'"
  shows "\<exists>older win ps qs. history s' = older @ win \<and> length win = 50 \<and>
           map preyPopulation win = map Fin ps \<and> map predatorPopulation win = map Fin qs \<and>
           equilibriumPoint s' =
             Some \<lparr> eq_prey = Fin (arithmeticMean ps), eq_predator = Fin (arithmeticMean qs),
                    timeToReach = Fin (currentTime s) \<rparr>"
proof -
  let ?m = "integrationStep (snd (storeHistory lr s))"
  have s': "s' = (equilibriumStep ?m)\<lparr> currentTime := currentTime (equilibriumStep ?m) + dt \<rparr>"
    using b by (simp add: loopBody_Continue)
  have m: "\<not> equilibriumReached ?m" "currentTime ?m = currentTime s"
    using n by (simp_all add: integrationStep_frame integrationStep_clock storeHistory_frame)
  obtain c m' where c: "checkEquilibrium ?m = (c, m')"
    by (cases "checkEquilibrium ?m")
  have "c"
  proof (rule ccontr)
    assume "\<not> c"
    with c checkEquilibrium_False[of ?m m'] m(1) have "equilibriumStep ?m = ?m"
      by (simp add: equilibriumStep_def)
    with s' m(1) e show False by simp
  qed
  with c have t: "checkEquilibrium ?m = (True, m')" by simp
  from checkEquilibrium_True[OF t] m(1)
  have q: "equilibriumStep ?m =
      ?m\<lparr> equilibriumReached := True,
          equilibriumPoint := Some (windowMeans ?m (currentTime ?m)),
          maxTime := currentTime ?m + min 10 (maxTime ?m - currentTime ?m) \<rparr>"
    by (simp add: equilibriumStep_def t Let_def)
  from checkEquilibrium_True_means[OF t] obtain ps qs where
    w: "length (recentWindow ?m) = 50"
      "map preyPopulation (recentWindow ?m) = map Fin ps"
      "map predatorPopulation (recentWindow ?m) = map Fin qs"
      "window_mean preyPopulation (recentWindow ?m) = Fin (arithmeticMean ps)"
      "window_mean predatorPopulation (recentWindow ?m) = Fin (arithmeticMean qs)"
    by blast
  have h: "history s' = take (length (history ?m) - equilibriumBufferSize) (history ?m)
      @ recentWindow ?m"
    using s' q by (simp add: recentWindow_def)
  have p: "equilibriumPoint s' =
      Some \<lparr> eq_prey = Fin (arithmeticMean ps), eq_predator = Fin (arithmeticMean qs),
             timeToReach = Fin (currentTime s) \<rparr>"
    using s' q w(4,5) m(2) by (simp add: windowMeans_def)
  from h w(1-3) p show ?thesis by blast
qed

lemma loopReach_flag_point:
  "loopReach init c \<Longrightarrow>
     (equilibriumReached (snd init) \<longleftrightarrow> equilibriumPoint (snd init) \<noteq> None) \<Longrightarrow>
     (equilibriumReached (snd c) \<longleftrightarrow> equilibriumPoint (snd c) \<noteq> None)"
proof (induction rule: loopReach.induct)
  case start
  then show ?case by simp
next
  case (iterate lr s lr' s')
  with loopBody_Continue_equilibrium[OF iterate.hyps(3)] show ?case by auto
qed

lemma simulateLoop_final_head:
  "\<exists>lr' s'. loopReach (lr, s) (lr', s') \<and>
     equilibriumReached (simulateLoop lr s) = equilibriumReached s' \<and>
     equilibriumPoint (simulateLoop lr s) = equilibriumPoint s' \<and>
     maxTime (simulateLoop lr s) = maxTime s' \<and>
     ((\<not> currentTime s' < maxTime s' \<and> simulateLoop lr s = s') \<or>
      (currentTime s' < maxTime s' \<and> loopBody lr' s' = Break (simulateLoop lr s)))"
proof -
  from simulateLoop_exit[of lr s] obtain lr' s' where
    r: "loopReach (lr, s) (lr', s')" and
    e: "(\<not> currentTime s' < maxTime s' \<and> simulateLoop lr s = s') \<or>
        (currentTime s' < maxTime s' \<and> loopBody lr' s' = Break (simulateLoop lr s))"
    by blast
  from e have "equilibriumReached (simulateLoop lr s) = equilibriumReached s' \<and>
     equilibriumPoint (simulateLoop lr s) = equilibriumPoint s' \<and>
     maxTime (simulateLoop lr s) = maxTime s'"
  proof
    assume "\<not> currentTime s' < maxTime s' \<and> simulateLoop lr s = s'"
    then show ?thesis by simp
  next
    assume "currentTime s' < maxTime s' \<and> loopBody lr' s' = Break (simulateLoop lr s)"
    then have "loopBody lr' s' = Break (simulateLoop lr s)" by simp
    from loopBody_Break_frame[OF this] show ?thesis by simp
  qed
  with r e show ?thesis by blast
qed

lemma resultsFrom_fields:
  "result_equilibriumReached (resultsFrom lr s) = equilibriumReached (simulateLoop lr s)"
  "result_equilibriumPoint (resultsFrom lr s) = equilibriumPoint (simulateLoop lr s)"
  by (simp_all add: resultsFrom_def getResults_def addFinalState_def)

lemma simulate_resultsFrom: "simulate s = resultsFrom 0 s"
  by (simp add: simulate_def simulate_state_def resultsFrom_def)

text \<open>
  C4: take a loop entered at any head \<open>s0\<close> with the flag down and the point unset, as
  the constructor leaves them, a head \<open>s1\<close> it reaches and a later head \<open>s2\<close>. The flag
  is up exactly when the point is set. Once the flag is up at \<open>s1\<close> it is up at every
  later head with the same point, and the results of the run carry that flag and that
  point. In every run the results carry the flag and the point of the last head of the
  run, the one at which the loop condition fails or whose pass ends in the \<open>break\<close>,
  and there too the flag is up exactly when the point is set. A pass from \<open>s2\<close> that
  ends in the \<open>break\<close> changes neither. A complete pass from \<open>s2\<close> to \<open>s3\<close> either
  leaves both unchanged or raises the flag from down to up; then the last 50 records of
  the history all hold finite populations, and the point is assigned the arithmetic
  means of their prey and of their predator populations, with the time at which the
  pass started, before the clock advances.
\<close>

theorem equilibrium_latch:
  assumes u: "\<not> equilibriumReached s0" and n: "equilibriumPoint s0 = None"
    and r1: "loopReach (lr0, s0) (lr1, s1)"
    and r2: "loopReach (lr1, s1) (lr2, s2)"
  shows "simulate s0 = resultsFrom 0 s0 \<and>
         (equilibriumReached s1 \<longleftrightarrow> equilibriumPoint s1 \<noteq> None) \<and>
         (equilibriumReached s1 \<longrightarrow>
            equilibriumReached s2 \<and> equilibriumPoint s2 = equilibriumPoint s1 \<and>
            result_equilibriumReached (resultsFrom lr0 s0) \<and>
            result_equilibriumPoint (resultsFrom lr0 s0) = equilibriumPoint s1) \<and>
         (result_equilibriumReached (resultsFrom lr0 s0) \<longleftrightarrow>
            result_equilibriumPoint (resultsFrom lr0 s0) \<noteq> None) \<and>
         (\<exists>lr' s'. loopReach (lr0, s0) (lr', s') \<and>
            ((\<not> currentTime s' < maxTime s' \<and> simulateLoop lr0 s0 = s') \<or>
             (currentTime s' < maxTime s' \<and> loopBody lr' s' = Break (simulateLoop lr0 s0))) \<and>
            result_equilibriumReached (resultsFrom lr0 s0) = equilibriumReached s' \<and>
            result_equilibriumPoint (resultsFrom lr0 s0) = equilibriumPoint s') \<and>
         (currentTime s2 < maxTime s2 \<and> loopBody lr2 s2 = Break s3 \<longrightarrow>
            equilibriumReached s3 = equilibriumReached s2 \<and>
            equilibriumPoint s3 = equilibriumPoint s2) \<and>
         (currentTime s2 < maxTime s2 \<and> loopBody lr2 s2 = Continue lr3 s3 \<longrightarrow>
            (if equilibriumReached s3 = equilibriumReached s2
             then equilibriumPoint s3 = equilibriumPoint s2
             else \<not> equilibriumReached s2 \<and> equilibriumReached s3 \<and>
                  (\<exists>older win ps qs.
                     history s3 = older @ win \<and> length win = 50 \<and>
                     map preyPopulation win = map Fin ps \<and>
                     map predatorPopulation win = map Fin qs \<and>
                     equilibriumPoint s3 =
                       Some \<lparr> eq_prey = Fin (arithmeticMean ps),
                              eq_predator = Fin (arithmeticMean qs),
                              timeToReach = Fin (currentTime s2) \<rparr>)))"
proof -
  have i: "equilibriumReached (snd (lr0, s0)) \<longleftrightarrow> equilibriumPoint (snd (lr0, s0)) \<noteq> None"
    using u n by simp
  have A: "equilibriumReached s1 \<longleftrightarrow> equilibriumPoint s1 \<noteq> None"
    using loopReach_flag_point[OF r1 i] by simp
  have B: "equilibriumReached s2 \<and> equilibriumPoint s2 = equilibriumPoint s1 \<and>
      result_equilibriumReached (resultsFrom lr0 s0) \<and>
      result_equilibriumPoint (resultsFrom lr0 s0) = equilibriumPoint s1"
    if l: "equilibriumReached s1"
  proof -
    have "simulateLoop lr0 s0 = simulateLoop lr1 s1"
      using loopReach_simulateLoop[OF r1] by simp
    with simulateLoop_latched[OF l, of lr1] loopReach_latched[OF r2] l show ?thesis
      by (simp add: resultsFrom_fields)
  qed
  from simulateLoop_final_head[of lr0 s0] obtain lr' s' where
    f: "loopReach (lr0, s0) (lr', s')"
      "equilibriumReached (simulateLoop lr0 s0) = equilibriumReached s'"
      "equilibriumPoint (simulateLoop lr0 s0) = equilibriumPoint s'"
      "(\<not> currentTime s' < maxTime s' \<and> simulateLoop lr0 s0 = s') \<or>
       (currentTime s' < maxTime s' \<and> loopBody lr' s' = Break (simulateLoop lr0 s0))"
    by blast
  have D: "\<exists>lr' s'. loopReach (lr0, s0) (lr', s') \<and>
      ((\<not> currentTime s' < maxTime s' \<and> simulateLoop lr0 s0 = s') \<or>
       (currentTime s' < maxTime s' \<and> loopBody lr' s' = Break (simulateLoop lr0 s0))) \<and>
      result_equilibriumReached (resultsFrom lr0 s0) = equilibriumReached s' \<and>
      result_equilibriumPoint (resultsFrom lr0 s0) = equilibriumPoint s'"
  proof -
    have "result_equilibriumReached (resultsFrom lr0 s0) = equilibriumReached s'"
      "result_equilibriumPoint (resultsFrom lr0 s0) = equilibriumPoint s'"
      using f(2,3) by (simp_all add: resultsFrom_fields)
    with f(1,4) show ?thesis by blast
  qed
  have C: "result_equilibriumReached (resultsFrom lr0 s0) \<longleftrightarrow>
      result_equilibriumPoint (resultsFrom lr0 s0) \<noteq> None"
    using loopReach_flag_point[OF f(1) i] f(2,3) by (simp add: resultsFrom_fields)
  have E: "equilibriumReached s3 = equilibriumReached s2 \<and>
      equilibriumPoint s3 = equilibriumPoint s2"
    if "currentTime s2 < maxTime s2 \<and> loopBody lr2 s2 = Break s3"
    using loopBody_Break_frame(1,2)[of lr2 s2 s3] that by simp
  have F: "if equilibriumReached s3 = equilibriumReached s2
             then equilibriumPoint s3 = equilibriumPoint s2
             else \<not> equilibriumReached s2 \<and> equilibriumReached s3 \<and>
                  (\<exists>older win ps qs.
                     history s3 = older @ win \<and> length win = 50 \<and>
                     map preyPopulation win = map Fin ps \<and>
                     map predatorPopulation win = map Fin qs \<and>
                     equilibriumPoint s3 =
                       Some \<lparr> eq_prey = Fin (arithmeticMean ps),
                              eq_predator = Fin (arithmeticMean qs),
                              timeToReach = Fin (currentTime s2) \<rparr>)"
    if "currentTime s2 < maxTime s2 \<and> loopBody lr2 s2 = Continue lr3 s3"
  proof -
    from that have b: "loopBody lr2 s2 = Continue lr3 s3" by simp
    show ?thesis
    proof (cases "equilibriumReached s3 = equilibriumReached s2")
      case True
      with loopBody_Continue_equilibrium[OF b] show ?thesis by auto
    next
      case False
      with loopBody_Continue_equilibrium[OF b]
      have x: "\<not> equilibriumReached s2" "equilibriumReached s3" by auto
      from loopBody_Continue_rise[OF b x] False x show ?thesis by simp
    qed
  qed
  show ?thesis
    using simulate_resultsFrom[of s0] A B C D E F by blast
qed

lemma loopReach_maxTime_le:
  "loopReach init c \<Longrightarrow> maxTime (snd c) \<le> maxTime (snd init)"
proof (induction rule: loopReach.induct)
  case start
  show ?case by simp
next
  case (iterate lr s lr' s')
  with loopBody_Continue_time[OF iterate.hyps(3)] show ?case by simp
qed

lemma loopReach_clock_bound:
  "loopReach init c \<Longrightarrow> currentTime (snd init) < maxTime (snd init) + dt \<Longrightarrow>
     currentTime (snd c) < maxTime (snd init) + dt"
proof (induction rule: loopReach.induct)
  case start
  then show ?case by simp
next
  case (iterate lr s lr' s')
  from loopReach_maxTime_le[OF iterate.hyps(1)] iterate.hyps(2)
  have "currentTime s < maxTime (snd init)" by simp
  with loopBody_Continue_time[OF iterate.hyps(3)] show ?case by simp
qed

text \<open>
  C5: take a loop entered at any head \<open>s0\<close>, with horizon \<open>H = maxTime s0\<close>, and let the
  pass from the head \<open>s1\<close> raise the equilibrium flag, at time \<open>T = currentTime s1\<close>. The
  horizon was \<open>H\<close> until then; after the pass it is \<open>min H (T + 10)\<close> and stays so at
  every later head \<open>s3\<close>, so a pass, and with it an integration step, starts only at a
  time below \<open>min H (T + 10)\<close>. The run ends with that horizon: at the first later head
  whose time is not below it, or before by the \<open>break\<close> of a pass started below it.
  The last pass starts below the horizon and advances the clock by \<open>dt\<close>, so the clock
  after the run is below \<open>min H (T + 10) + dt\<close>; it is not stated to be at most the
  horizon.
\<close>

theorem horizon_shrink:
  assumes r1: "loopReach (lr0, s0) (lr1, s1)"
    and t1: "currentTime s1 < maxTime s1"
    and b1: "loopBody lr1 s1 = Continue lr2 s2"
    and n1: "\<not> equilibriumReached s1"
    and e2: "equilibriumReached s2"
    and r3: "loopReach (lr2, s2) (lr3, s3)"
  shows "maxTime s1 = maxTime s0 \<and>
         maxTime s2 = min (maxTime s0) (currentTime s1 + 10) \<and>
         maxTime s3 = min (maxTime s0) (currentTime s1 + 10) \<and>
         (currentTime s3 < maxTime s3 \<longrightarrow>
            currentTime s3 < min (maxTime s0) (currentTime s1 + 10)) \<and>
         maxTime (simulateLoop lr0 s0) = min (maxTime s0) (currentTime s1 + 10) \<and>
         (\<exists>lr' s'. loopReach (lr2, s2) (lr', s') \<and>
            maxTime s' = min (maxTime s0) (currentTime s1 + 10) \<and>
            ((\<not> currentTime s' < maxTime s' \<and> simulateLoop lr0 s0 = s') \<or>
             (currentTime s' < maxTime s' \<and> loopBody lr' s' = Break (simulateLoop lr0 s0)))) \<and>
         currentTime (simulateLoop lr0 s0) < min (maxTime s0) (currentTime s1 + 10) + dt"
proof -
  have H: "maxTime s1 = maxTime s0"
    using loopReach_unlatched[OF r1] n1 by simp
  have "maxTime s2 = currentTime s1 + min 10 (maxTime s1 - currentTime s1)"
    using loopBody_Continue_equilibrium[OF b1] n1 e2 by auto
  then have M2: "maxTime s2 = min (maxTime s0) (currentTime s1 + 10)"
    using H by (simp add: min_def)
  have M3: "maxTime s3 = maxTime s2"
    using loopReach_latched[OF r3] e2 by simp
  have r2: "loopReach (lr0, s0) (lr2, s2)"
    using loopReach.iterate[OF r1 t1 b1] .
  have f: "simulateLoop lr0 s0 = simulateLoop lr2 s2"
    using loopReach_simulateLoop[OF r2] by simp
  have Mf: "maxTime (simulateLoop lr0 s0) = maxTime s2"
    using simulateLoop_latched[OF e2, of lr2] f by simp
  from simulateLoop_exit[of lr2 s2] obtain lr' s' where
    r: "loopReach (lr2, s2) (lr', s')" and
    e: "(\<not> currentTime s' < maxTime s' \<and> simulateLoop lr2 s2 = s') \<or>
        (currentTime s' < maxTime s' \<and> loopBody lr' s' = Break (simulateLoop lr2 s2))"
    by blast
  have M': "maxTime s' = maxTime s2"
    using loopReach_latched[OF r] e2 by simp
  have X: "\<exists>lr' s'. loopReach (lr2, s2) (lr', s') \<and>
            maxTime s' = min (maxTime s0) (currentTime s1 + 10) \<and>
            ((\<not> currentTime s' < maxTime s' \<and> simulateLoop lr0 s0 = s') \<or>
             (currentTime s' < maxTime s' \<and> loopBody lr' s' = Break (simulateLoop lr0 s0)))"
  proof -
    from e f have "(\<not> currentTime s' < maxTime s' \<and> simulateLoop lr0 s0 = s') \<or>
        (currentTime s' < maxTime s' \<and> loopBody lr' s' = Break (simulateLoop lr0 s0))"
      by simp
    moreover have "maxTime s' = min (maxTime s0) (currentTime s1 + 10)"
      using M' M2 by simp
    ultimately show ?thesis using r by blast
  qed
  have c2: "currentTime s2 = currentTime s1 + dt"
    using loopBody_Continue_time[OF b1] by simp
  have "currentTime s1 < min (maxTime s0) (currentTime s1 + 10)"
    using t1 H by simp
  then have "currentTime (snd (lr2, s2)) < maxTime (snd (lr2, s2)) + dt"
    using c2 M2 by simp
  from loopReach_clock_bound[OF r this] have "currentTime s' < maxTime s2 + dt"
    by simp
  moreover have "currentTime (simulateLoop lr2 s2) = currentTime s'"
  proof -
    from e show ?thesis
    proof
      assume "\<not> currentTime s' < maxTime s' \<and> simulateLoop lr2 s2 = s'"
      then show ?thesis by simp
    next
      assume "currentTime s' < maxTime s' \<and> loopBody lr' s' = Break (simulateLoop lr2 s2)"
      then have "loopBody lr' s' = Break (simulateLoop lr2 s2)" by simp
      from loopBody_Break_frame(3)[OF this] show ?thesis .
    qed
  qed
  ultimately have Cf: "currentTime (simulateLoop lr0 s0)
      < min (maxTime s0) (currentTime s1 + 10) + dt"
    using f M2 by simp
  show ?thesis using H M2 M3 Mf X Cf by simp
qed

subsection \<open>The pass that detects the equilibrium of the still ecosystem\<close>

lemma still_integrationStep:
  assumes "params s = stillEcosystem" and "preyPop s = Fin 100" and "predatorPop s = Fin 100"
  shows "integrationStep s = s"
proof -
  have "rungeKutta4Step s (Fin 100) (Fin 100) (Fin (currentTime s)) =
      \<lparr> pop_prey = Fin 100, pop_predator = Fin 100 \<rparr>"
    using assms(1)
    by (simp add: rungeKutta4Step_def calculateDerivatives_def calculateResourceLevel_def
        stillEcosystem_def Let_def js_sub_def dt_def Math_max_def)
  then show ?thesis
    using assms(2,3) by (cases s) (simp add: integrationStep_def)
qed

lemma foldl_js_add_Fin:
  "map g xs = map Fin vs \<Longrightarrow>
     foldl (\<lambda>sum h. js_add sum (g h)) (Fin a) xs = Fin (a + sum_list vs)"
proof (induction xs arbitrary: a vs)
  case Nil
  then show ?case by simp
next
  case (Cons x xs)
  then obtain v ws where vs: "vs = v # ws" "g x = Fin v" "map g xs = map Fin ws"
    by (cases vs) auto
  from Cons.IH[OF vs(3), of "a + v"] vs(1,2) show ?case
    by (simp add: add.assoc)
qed

lemma window_mean_arithmeticMean:
  "map f xs = map Fin vs \<Longrightarrow> xs \<noteq> [] \<Longrightarrow> window_mean f xs = Fin (arithmeticMean vs)"
proof -
  assume m: "map f xs = map Fin vs" and "xs \<noteq> []"
  from m have "length vs = length xs" by (metis length_map)
  with foldl_js_add_Fin[OF m, of 0] \<open>xs \<noteq> []\<close> show ?thesis
    by (simp add: window_mean_def arithmeticMean_def)
qed

lemma foldl_constant_deviation:
  "\<forall>h \<in> set xs. f h = Fin c \<Longrightarrow>
     foldl (\<lambda>sum h. js_add sum (Math_pow2 (js_sub (f h) (Fin c)))) (Fin a) xs = Fin a"
  by (induction xs arbitrary: a) (simp_all add: Math_pow2_def js_sub_def)

lemma constant_map:
  "\<forall>h \<in> set xs. f h = Fin c \<Longrightarrow> map f xs = map Fin (replicate (length xs) c)"
  by (induction xs) simp_all

lemma constant_window:
  assumes "\<forall>h \<in> set xs. f h = Fin c" and "xs \<noteq> []"
  shows "window_mean f xs = Fin c" and "window_variance f (Fin c) xs = Fin 0"
proof -
  have m: "map f xs = map Fin (replicate (length xs) c)"
    using assms(1) by (rule constant_map)
  have "arithmeticMean (replicate (length xs) c) = c"
    using assms(2) by (simp add: arithmeticMean_def sum_list_replicate)
  with window_mean_arithmeticMean[OF m assms(2)] show "window_mean f xs = Fin c" by simp
  show "window_variance f (Fin c) xs = Fin 0"
    using foldl_constant_deviation[OF assms(1), of 0] assms(2)
    by (simp add: window_variance_def)
qed

lemma stillHistory_records:
  "length (stillHistory @ [stillRecord 532]) = 50"
  "\<forall>r \<in> set (stillHistory @ [stillRecord 532]). preyPopulation r = Fin 100"
  "\<forall>r \<in> set (stillHistory @ [stillRecord 532]). predatorPopulation r = Fin 100"
  by (auto simp: stillHistory_def stillRecord_def)

lemma still_storeHistory:
  "storeHistory stillLastRecord stillLatchHead =
     (stillClock, stillLatchHead\<lparr> history := stillHistory @ [stillRecord 532] \<rparr>)"
proof -
  have d: "recordInterval \<le> currentTime stillLatchHead - stillLastRecord"
    by (simp add: stillLatchHead_def stillClock_def stillLastRecord_def recordInterval_def)
  have "\<lfloor>stillClock * 100 + 1 / 2\<rfloor> = 532"
    unfolding stillClock_def by linarith
  then have "makeRecord stillLatchHead = stillRecord 532"
    by (simp add: makeRecord_def stillLatchHead_def stillRecord_def constructor_def
        calculateResourceLevel_def stillEcosystem_def)
  with d show ?thesis
    by (simp add: storeHistory_def) (simp add: stillLatchHead_def)
qed

lemma still_checkEquilibrium:
  "checkEquilibrium (stillLatchHead\<lparr> history := stillHistory @ [stillRecord 532] \<rparr>) =
     (True, stillLatchHead
        \<lparr> history := stillHistory @ [stillRecord 532], equilibriumReached := True,
          equilibriumPoint :=
            Some \<lparr> eq_prey = Fin 100, eq_predator = Fin 100, timeToReach = Fin stillClock \<rparr> \<rparr>)"
proof -
  let ?h = "stillHistory @ [stillRecord 532]"
  have ne: "?h \<noteq> []" by simp
  note w = constant_window[OF stillHistory_records(2) ne]
    constant_window[OF stillHistory_records(3) ne]
  have c: "currentTime stillLatchHead = stillClock"
    by (simp add: stillLatchHead_def)
  show ?thesis
    using stillHistory_records(1)
    by (simp add: checkEquilibrium_def Let_def w c equilibriumBufferSize_def
        equilibriumTolerance_def)
qed

lemma still_latch_pass:
  "loopBody stillLastRecord stillLatchHead = Continue stillClock stillLatched"
proof -
  let ?m = "stillLatchHead\<lparr> history := stillHistory @ [stillRecord 532] \<rparr>"
  have f: "params ?m = stillEcosystem" "preyPop ?m = Fin 100" "predatorPop ?m = Fin 100"
    "\<not> equilibriumReached ?m" "maxTime ?m = 100" "currentTime ?m = stillClock"
    by (simp_all add: stillLatchHead_def constructor_def stillEcosystem_def)
  have i: "integrationStep ?m = ?m"
    using f(1-3) by (rule still_integrationStep)
  have x: "\<not> extinct ?m"
    by (simp add: extinct_def f(2,3))
  have "min 10 (100 - stillClock) = 10"
    by (simp add: stillClock_def)
  then have q: "equilibriumStep ?m =
      stillLatchHead
        \<lparr> history := stillHistory @ [stillRecord 532], equilibriumReached := True,
          equilibriumPoint :=
            Some \<lparr> eq_prey = Fin 100, eq_predator = Fin 100, timeToReach = Fin stillClock \<rparr>,
          maxTime := stillClock + 10 \<rparr>"
    using f(4)
    by (simp add: equilibriumStep_def still_checkEquilibrium)
      (simp add: stillLatchHead_def constructor_def)
  show ?thesis
    unfolding loopBody_Continue still_storeHistory fst_conv snd_conv i q
    using x by (simp add: stillLatched_def stillLatchHead_def)
qed

lemma stillLatchHead_fields:
  "\<not> equilibriumReached stillLatchHead" "equilibriumPoint stillLatchHead = None"
  "currentTime stillLatchHead = stillClock" "maxTime stillLatchHead = 100"
  "currentTime stillLatchHead < maxTime stillLatchHead"
  by (simp_all add: stillLatchHead_def constructor_def stillClock_def)

lemma stillLatched_fields:
  "equilibriumReached stillLatched" "maxTime stillLatched = stillClock + 10"
  "equilibriumPoint stillLatched =
     Some \<lparr> eq_prey = Fin 100, eq_predator = Fin 100, timeToReach = Fin stillClock \<rparr>"
  "history stillLatched = stillHistory @ [stillRecord 532]"
  "currentTime stillLatched = stillClock + dt"
  by (simp_all add: stillLatched_def)

lemma preyAbsent_break:
  "loopBody 0 (constructor preyAbsent) =
     Break ((integrationStep (constructor preyAbsent))\<lparr> extinctionOccurred := True \<rparr>)"
  by (simp add: loopBody_Break storeHistory_constructor preyAbsent_step extinct_def)

lemma preyAbsent_fields:
  "\<not> equilibriumReached (constructor preyAbsent)"
  "equilibriumPoint (constructor preyAbsent) = None"
  "currentTime (constructor preyAbsent) < maxTime (constructor preyAbsent)"
  by (simp_all add: constructor_def)

text \<open>
  The pass of the still ecosystem from \<open>stillLatchHead\<close> raises the flag: the 50 records
  of the history all hold the populations 100 and 100, whose arithmetic mean is 100, and
  the point is (100, 100) at the time \<open>stillClock\<close> at which the pass started; the results
  of the run carry it. The first pass of the run without prey ends in the \<open>break\<close>: the
  flag stays down and the point unset, in the simulator and in the results.
\<close>

theorem equilibrium_latch_witness:
  "\<not> equilibriumReached stillLatchHead \<and>
   equilibriumPoint stillLatchHead = None \<and>
   currentTime stillLatchHead < maxTime stillLatchHead \<and>
   loopBody stillLastRecord stillLatchHead = Continue stillClock stillLatched \<and>
   equilibriumReached stillLatched \<and>
   (\<exists>older win ps qs.
      history stillLatched = older @ win \<and> length win = 50 \<and>
      map preyPopulation win = map Fin ps \<and> map predatorPopulation win = map Fin qs \<and>
      equilibriumPoint stillLatched =
        Some \<lparr> eq_prey = Fin (arithmeticMean ps), eq_predator = Fin (arithmeticMean qs),
               timeToReach = Fin stillClock \<rparr>) \<and>
   map preyPopulation (history stillLatched) = map Fin (replicate 50 100) \<and>
   map predatorPopulation (history stillLatched) = map Fin (replicate 50 100) \<and>
   arithmeticMean (replicate 50 100) = 100 \<and>
   equilibriumPoint stillLatched =
     Some \<lparr> eq_prey = Fin 100, eq_predator = Fin 100, timeToReach = Fin stillClock \<rparr> \<and>
   result_equilibriumReached (resultsFrom stillLastRecord stillLatchHead) \<and>
   result_equilibriumPoint (resultsFrom stillLastRecord stillLatchHead) =
     Some \<lparr> eq_prey = Fin 100, eq_predator = Fin 100, timeToReach = Fin stillClock \<rparr> \<and>
   \<not> equilibriumReached (constructor preyAbsent) \<and>
   equilibriumPoint (constructor preyAbsent) = None \<and>
   currentTime (constructor preyAbsent) < maxTime (constructor preyAbsent) \<and>
   loopBody 0 (constructor preyAbsent) =
     Break ((integrationStep (constructor preyAbsent))\<lparr> extinctionOccurred := True \<rparr>) \<and>
   \<not> equilibriumReached
       ((integrationStep (constructor preyAbsent))\<lparr> extinctionOccurred := True \<rparr>) \<and>
   equilibriumPoint
       ((integrationStep (constructor preyAbsent))\<lparr> extinctionOccurred := True \<rparr>) = None \<and>
   \<not> result_equilibriumReached (simulate (constructor preyAbsent)) \<and>
   result_equilibriumPoint (simulate (constructor preyAbsent)) = None"
proof -
  note h = stillLatchHead_fields
  note p = preyAbsent_fields
  let ?c = "constructor preyAbsent"
  let ?x = "(integrationStep ?c)\<lparr> extinctionOccurred := True \<rparr>"
  have k: "simulate ?c = resultsFrom 0 ?c \<and>
      equilibriumReached ?x = equilibriumReached ?c \<and>
      equilibriumPoint ?x = equilibriumPoint ?c"
    using equilibrium_latch[OF p(1,2) loopReach.start loopReach.start, of 0 ?x]
      p(3) preyAbsent_break
    by blast
  have "simulateLoop 0 ?c = ?x"
    using p(3) preyAbsent_break by (simp add: simulateLoop.simps[of 0 ?c])
  then have g: "result_equilibriumReached (simulate ?c) = equilibriumReached ?x"
    "result_equilibriumPoint (simulate ?c) = equilibriumPoint ?x"
    using k by (simp_all add: resultsFrom_fields)
  have b: "\<not> equilibriumReached ?x" "equilibriumPoint ?x = None"
    "\<not> result_equilibriumReached (simulate ?c)"
    "result_equilibriumPoint (simulate ?c) = None"
    using k g p(1,2) by simp_all
  have r: "loopReach (stillLastRecord, stillLatchHead) (stillLastRecord, stillLatchHead)"
    by (rule loopReach.start)
  have r': "loopReach (stillLastRecord, stillLatchHead) (stillClock, stillLatched)"
    using loopReach.iterate[OF r h(5) still_latch_pass] .
  have "if equilibriumReached stillLatched = equilibriumReached stillLatchHead
        then equilibriumPoint stillLatched = equilibriumPoint stillLatchHead
        else \<not> equilibriumReached stillLatchHead \<and> equilibriumReached stillLatched \<and>
             (\<exists>older win ps qs.
                history stillLatched = older @ win \<and> length win = 50 \<and>
                map preyPopulation win = map Fin ps \<and>
                map predatorPopulation win = map Fin qs \<and>
                equilibriumPoint stillLatched =
                  Some \<lparr> eq_prey = Fin (arithmeticMean ps),
                         eq_predator = Fin (arithmeticMean qs),
                         timeToReach = Fin (currentTime stillLatchHead) \<rparr>)"
    using equilibrium_latch[OF h(1,2) r r, of stillLatched stillClock]
      h(5) still_latch_pass
    by blast
  then have w: "\<exists>older win ps qs.
      history stillLatched = older @ win \<and> length win = 50 \<and>
      map preyPopulation win = map Fin ps \<and> map predatorPopulation win = map Fin qs \<and>
      equilibriumPoint stillLatched =
        Some \<lparr> eq_prey = Fin (arithmeticMean ps), eq_predator = Fin (arithmeticMean qs),
               timeToReach = Fin stillClock \<rparr>"
    using h(1,3) stillLatched_fields(1) by simp
  have f: "result_equilibriumReached (resultsFrom stillLastRecord stillLatchHead)"
    "result_equilibriumPoint (resultsFrom stillLastRecord stillLatchHead)
       = equilibriumPoint stillLatched"
    using equilibrium_latch[OF h(1,2) r' loopReach.start] stillLatched_fields(1) by blast+
  have m: "map preyPopulation (history stillLatched) = map Fin (replicate 50 100)"
    "map predatorPopulation (history stillLatched) = map Fin (replicate 50 100)"
    using constant_map[OF stillHistory_records(2)] constant_map[OF stillHistory_records(3)]
    by (simp_all only: stillLatched_fields(4) stillHistory_records(1))
  have a: "arithmeticMean (replicate 50 100) = 100"
    by (simp add: arithmeticMean_def sum_list_replicate)
  show ?thesis
    using h(1,2,5) still_latch_pass stillLatched_fields(1,3) w m a f p preyAbsent_break b
    by (intro conjI) simp_all
qed

text \<open>
  The same pass, at \<open>T = stillClock\<close> with \<open>H = 100\<close>, sets the horizon to \<open>T + 10\<close>, the
  double 15.319999999999931; the next pass starts below it, the run ends with it, and the
  clock after the run is below it plus \<open>dt\<close>.
\<close>

theorem horizon_shrink_witness:
  "loopReach (stillLastRecord, stillLatchHead) (stillLastRecord, stillLatchHead) \<and>
   currentTime stillLatchHead = stillClock \<and>
   maxTime stillLatchHead = 100 \<and>
   currentTime stillLatchHead < maxTime stillLatchHead \<and>
   \<not> equilibriumReached stillLatchHead \<and>
   loopBody stillLastRecord stillLatchHead = Continue stillClock stillLatched \<and>
   equilibriumReached stillLatched \<and>
   maxTime stillLatched = stillClock + 10 \<and>
   min 100 (stillClock + 10) = 8624393286414461 / 562949953421312 \<and>
   currentTime stillLatched < maxTime stillLatched \<and>
   currentTime stillLatched < 8624393286414461 / 562949953421312 \<and>
   maxTime (simulateLoop stillLastRecord stillLatchHead) = 8624393286414461 / 562949953421312 \<and>
   currentTime (simulateLoop stillLastRecord stillLatchHead)
     < 8624393286414461 / 562949953421312 + 1 / 100"
proof -
  note h = stillLatchHead_fields
  have r: "loopReach (stillLastRecord, stillLatchHead) (stillLastRecord, stillLatchHead)"
    by (rule loopReach.start)
  have v: "min 100 (stillClock + 10) = 8624393286414461 / 562949953421312"
    by (simp add: stillClock_def)
  have t: "currentTime stillLatched < maxTime stillLatched"
    by (simp add: stillLatched_fields(2,5) dt_def)
  show ?thesis
    using horizon_shrink[OF r h(5) still_latch_pass h(1) stillLatched_fields(1)
        loopReach.start]
      r h still_latch_pass stillLatched_fields(1,2) v t
    by (simp add: dt_def)
qed

end
